theory Spec2Isabelle
  imports Complex_Main "HOL-Library.Sublist"
begin

section \<open>Strings\<close>

text \<open>
  A JavaScript string is modelled as a \<^typ>\<open>string\<close>: the bytes of its UTF-8 encoding,
  one \<^typ>\<open>char\<close> each. An ASCII character is one byte, and that byte occurs in the
  encoding of no other character; every character the worker tests for, replaces or
  inserts is ASCII, so that these operations are the same on the bytes as on the
  characters.
\<close>

text \<open>\<^verbatim>\<open>str.replace(/c/g, r)\<close> for a one-character pattern and a replacement without
  \<^verbatim>\<open>$\<close>: every occurrence of the character, left to right, becomes the replacement.\<close>

fun replace_char :: "char \<Rightarrow> string \<Rightarrow> string \<Rightarrow> string" where
  "replace_char c r [] = []"
| "replace_char c r (x # xs) =
     (if x = c then r @ replace_char c r xs else x # replace_char c r xs)"

text \<open>\<^verbatim>\<open>escapeHtml\<close> of \<^verbatim>\<open>src/email.ts\<close> (the copy in the older \<^verbatim>\<open>src/index.ts\<close> is the
  same text): five replacements in a row, the ampersand first.\<close>

definition escapeHtml :: "string \<Rightarrow> string" where
  \<open>escapeHtml str =
     replace_char (CHR 0x27) ''&#039;''
       (replace_char (CHR 0x22) ''&quot;''
         (replace_char (CHR ''>'') ''&gt;''
           (replace_char (CHR ''<'') ''&lt;''
             (replace_char (CHR ''&'') ''&amp;'' str))))\<close>

text \<open>The specification's wording, for comparison: each character is looked at once and
  replaced by its entity when it is one of the five.\<close>

definition html_entity :: "char \<Rightarrow> string" where
  \<open>html_entity c =
     (if c = CHR ''&'' then ''&amp;''
      else if c = CHR ''<'' then ''&lt;''
      else if c = CHR ''>'' then ''&gt;''
      else if c = CHR 0x22 then ''&quot;''
      else if c = CHR 0x27 then ''&#039;''
      else [c])\<close>

definition html_special :: "char set" where
  \<open>html_special = {CHR ''&'', CHR ''<'', CHR ''>'', CHR 0x22, CHR 0x27}\<close>

text \<open>\<^verbatim>\<open>String.prototype.includes\<close>: the needle occurs somewhere in the string.\<close>

fun str_includes :: "string \<Rightarrow> string \<Rightarrow> bool" where
  "str_includes [] n = (n = [])"
| "str_includes (c # cs) n = (prefix n (c # cs) \<or> str_includes cs n)"

text \<open>\<^verbatim>\<open>Array.prototype.join\<close> on strings.\<close>

fun join :: "string \<Rightarrow> string list \<Rightarrow> string" where
  "join sep [] = []"
| "join sep [x] = x"
| "join sep (x # y # ys) = x @ sep @ join sep (y # ys)"

section \<open>Values, errors and the platform\<close>

text \<open>
  What \<^verbatim>\<open>request.json()\<close> returns is not checked by the type annotations of the source,
  so the handlers work on raw JavaScript values. A number carries its numeric value;
  an object carries its own properties in order, the first entry of a name being the
  property.
\<close>

datatype jsval =
    Undefined
  | Null
  | Bool bool
  | Num real
  | Str string
  | Arr "jsval list"
  | Obj "(string \<times> jsval) list"

text \<open>The exceptions the worker can meet.\<close>

datatype error = TypeError | RangeError | SyntaxError | NetworkError

text \<open>The truth value of a value in a condition (\<^verbatim>\<open>if (v)\<close>, \<^verbatim>\<open>v ? a : b\<close>, \<^verbatim>\<open>v || w\<close>).\<close>

fun truthy :: "jsval \<Rightarrow> bool" where
  "truthy Undefined = False"
| "truthy Null = False"
| "truthy (Bool b) = b"
| "truthy (Num n) = (n \<noteq> 0)"
| "truthy (Str s) = (s \<noteq> [])"
| "truthy (Arr _) = True"
| "truthy (Obj _) = True"

text \<open>
  Reading a property \<^verbatim>\<open>v.name\<close> or \<^verbatim>\<open>v['name']\<close>, for the names the worker reads
  (none of them is a property of a string, a number, a boolean or an array): on
  \<^verbatim>\<open>null\<close> and \<^verbatim>\<open>undefined\<close> it throws a TypeError, on an object it gives the property
  or \<^verbatim>\<open>undefined\<close>, on anything else \<^verbatim>\<open>undefined\<close>.
\<close>

fun get_prop :: "jsval \<Rightarrow> string \<Rightarrow> error + jsval" where
  "get_prop Undefined k = Inl TypeError"
| "get_prop Null k = Inl TypeError"
| "get_prop (Obj kvs) k = Inr (case map_of kvs k of None \<Rightarrow> Undefined | Some v \<Rightarrow> v)"
| "get_prop v k = Inr Undefined"

text \<open>The two components of a parsed \<^verbatim>\<open>URL\<close> that the worker reads.\<close>

record URL =
  url_hostname :: string
  url_protocol :: string

text \<open>The request that \<^verbatim>\<open>sendEmail\<close> posts to the provider, and what \<^verbatim>\<open>fetch\<close> gives
  back: it rejects on a network failure, otherwise there is a response with a status and
  a body whose text can be read or not.\<close>

record Outbound =
  out_endpoint :: string
  out_authorization :: string
  out_to :: string
  out_from :: "string option"
  out_subject :: string
  out_html :: string

datatype fetch_result = Rejected | Responded nat "string option"

text \<open>
  The parts of the runtime that are not code of the repository are parameters:
  \<^item> \<^verbatim>\<open>new URL(v)\<close>, \<open>None\<close> when it throws;
  \<^item> \<^verbatim>\<open>new Date(n).toISOString()\<close>, \<open>None\<close> when it throws a RangeError;
  \<^item> \<^verbatim>\<open>JSON.stringify(v, null, 2)\<close> on a value that came out of a JSON text;
  \<^item> the conversion of a value to a string inside a template literal, \<open>None\<close> when it
    throws a TypeError;
  \<^item> \<^verbatim>\<open>Date.now()\<close>;
  \<^item> the outcome of the outbound \<^verbatim>\<open>fetch\<close>;
  \<^item> \<^verbatim>\<open>toUpperCase\<close> on a string that has a character beyond ASCII.
\<close>

record platform =
  new_URL :: "jsval \<Rightarrow> URL option"
  toISOString :: "real \<Rightarrow> string option"
  stringify :: "jsval \<Rightarrow> string"
  to_string :: "jsval \<Rightarrow> string option"
  date_now :: real
  outbound_fetch :: "Outbound \<Rightarrow> fetch_result"
  upper_other :: "string \<Rightarrow> string"

text \<open>\<^verbatim>\<open>String.prototype.toUpperCase\<close>. On an ASCII string it moves every letter
  from \<^verbatim>\<open>a\<close> to \<^verbatim>\<open>z\<close> down by 32 and keeps the other characters. On a string
  with a character beyond ASCII the result comes from the Unicode case tables of the
  runtime (\<^verbatim>\<open>e\<close> with an acute accent becomes its capital, the sharp s becomes
  \<^verbatim>\<open>SS\<close>); it is the parameter \<open>upper_other\<close> of the platform.\<close>

definition is_ascii :: "char \<Rightarrow> bool" where
  "is_ascii c = ((of_char c :: nat) < 128)"

definition ascii_upper :: "char \<Rightarrow> char" where
  "ascii_upper c =
     (if 97 \<le> (of_char c :: nat) \<and> (of_char c :: nat) \<le> 122
      then char_of ((of_char c :: nat) - 32) else c)"

definition toUpperCase :: "platform \<Rightarrow> string \<Rightarrow> string" where
  "toUpperCase P s = (if list_all is_ascii s then map ascii_upper s else upper_other P s)"

text \<open>The environment bindings: \<^verbatim>\<open>[key: string]: string\<close>.\<close>

type_synonym Env = "string \<Rightarrow> string option"

section \<open>Registry and inference\<close>

text \<open>\<^verbatim>\<open>getRecipientEmail\<close>: upper-case, hyphens to underscores, look the key up.\<close>

definition getRecipientEmail :: "platform \<Rightarrow> string \<Rightarrow> Env \<Rightarrow> string option" where
  \<open>getRecipientEmail P name env =
     (let normalizedName = replace_char (CHR ''-'') ''_'' (toUpperCase P name);
          envKey = ''APP_'' @ normalizedName @ ''_EMAIL''
      in env envKey)\<close>

text \<open>\<^verbatim>\<open>inferAppName\<close>: the \<^verbatim>\<open>catch\<close> turns a failing \<^verbatim>\<open>new URL\<close> into no result.\<close>

definition inferAppName :: "platform \<Rightarrow> jsval \<Rightarrow> string option" where
  \<open>inferAppName P documentUri =
     (case new_URL P documentUri of
        None \<Rightarrow> None
      | Some url \<Rightarrow>
          if str_includes (url_hostname url) ''signic.email'' then Some ''mail_box''
          else if url_protocol url = ''chrome-extension:'' then Some ''mail_box_wallet''
          else None)\<close>

text \<open>\<^verbatim>\<open>extractHostname\<close>: the \<^verbatim>\<open>catch\<close> returns the argument as it came.\<close>

definition extractHostname :: "platform \<Rightarrow> jsval \<Rightarrow> jsval" where
  "extractHostname P urlString =
     (case new_URL P urlString of
        None \<Rightarrow> urlString
      | Some url \<Rightarrow> Str (url_hostname url))"

text \<open>The specification's wording of "the same name up to letter case and hyphen versus
  underscore". Letter case is what upper-casing removes: two names are the same up to
  these when their upper-case forms have the same length and agree position by
  position, two characters agreeing when they are equal or are a hyphen and an
  underscore.\<close>

definition hyphen_agree :: "char \<Rightarrow> char \<Rightarrow> bool" where
  \<open>hyphen_agree x y =
     (x = y \<or> (x \<in> {CHR ''-'', CHR ''_''} \<and> y \<in> {CHR ''-'', CHR ''_''}))\<close>

definition same_name :: "platform \<Rightarrow> string \<Rightarrow> string \<Rightarrow> bool" where
  "same_name P a b = list_all2 hyphen_agree (toUpperCase P a) (toUpperCase P b)"

text \<open>The same for ASCII names, without a word of upper-casing: the names have the same
  length and agree position by position, two characters agreeing when they are equal,
  or are a hyphen and an underscore, or are the lower-case and the upper-case form of
  one of the letters \<^verbatim>\<open>a\<close> to \<^verbatim>\<open>z\<close>.\<close>

definition is_lower :: "char \<Rightarrow> bool" where
  "is_lower c = (97 \<le> (of_char c :: nat) \<and> (of_char c :: nat) \<le> 122)"

definition agree_char :: "char \<Rightarrow> char \<Rightarrow> bool" where
  \<open>agree_char x y =
     (x = y
      \<or> (x \<in> {CHR ''-'', CHR ''_''} \<and> y \<in> {CHR ''-'', CHR ''_''})
      \<or> (is_lower x \<and> (of_char y :: nat) + 32 = of_char x)
      \<or> (is_lower y \<and> (of_char x :: nat) + 32 = of_char y))\<close>

definition same_ascii_name :: "string \<Rightarrow> string \<Rightarrow> bool" where
  "same_ascii_name a b = (list_all is_ascii a \<and> list_all2 agree_char a b)"


section \<open>The alert email\<close>

text \<open>\<^verbatim>\<open>SecurityAlert\<close>. The alert handler checks the name, the type and the time stamp
  before it builds the record and the CSP handler sets them itself; what neither of
  them checks at run time is carried as a raw value.\<close>

record SecurityAlert =
  appName :: string
  alert_type :: string
  alert_url :: jsval
  alert_hostname :: jsval
  timestamp :: real
  stack :: jsval
  appVersion :: jsval
  userAgent :: jsval
  metadata :: jsval

definition VALID_ALERT_TYPES :: "string list" where
  \<open>VALID_ALERT_TYPES =
     [''unauthorized_fetch'', ''unauthorized_xhr'', ''unauthorized_websocket'', ''csp_violation'']\<close>

text \<open>The white space and the line terminators of JavaScript, each by the bytes of its
  encoding: tab, line feed, vertical tab, form feed, carriage return, space, U+00A0,
  U+1680, U+2000 to U+200A, U+2028, U+2029, U+202F, U+205F, U+3000 and U+FEFF.\<close>

definition white_space :: "string list" where
  \<open>white_space =
     [[CHR 0x09], [CHR 0x0A], [CHR 0x0B], [CHR 0x0C], [CHR 0x0D], [CHR 0x20],
      [CHR 0xC2, CHR 0xA0],
      [CHR 0xE1, CHR 0x9A, CHR 0x80],
      [CHR 0xE2, CHR 0x80, CHR 0x80], [CHR 0xE2, CHR 0x80, CHR 0x81],
      [CHR 0xE2, CHR 0x80, CHR 0x82], [CHR 0xE2, CHR 0x80, CHR 0x83],
      [CHR 0xE2, CHR 0x80, CHR 0x84], [CHR 0xE2, CHR 0x80, CHR 0x85],
      [CHR 0xE2, CHR 0x80, CHR 0x86], [CHR 0xE2, CHR 0x80, CHR 0x87],
      [CHR 0xE2, CHR 0x80, CHR 0x88], [CHR 0xE2, CHR 0x80, CHR 0x89],
      [CHR 0xE2, CHR 0x80, CHR 0x8A],
      [CHR 0xE2, CHR 0x80, CHR 0xA8], [CHR 0xE2, CHR 0x80, CHR 0xA9],
      [CHR 0xE2, CHR 0x80, CHR 0xAF],
      [CHR 0xE2, CHR 0x81, CHR 0x9F],
      [CHR 0xE3, CHR 0x80, CHR 0x80],
      [CHR 0xEF, CHR 0xBB, CHR 0xBF]]\<close>

text \<open>The number of bytes of the first of the given characters that the string starts
  with, 0 when it starts with none of them; and the string without the run of such
  characters at its start.\<close>

definition space_at :: "string list \<Rightarrow> string \<Rightarrow> nat" where
  "space_at ws s = (case find (\<lambda>w. prefix w s) ws of None \<Rightarrow> 0 | Some w \<Rightarrow> length w)"

function skip :: "string list \<Rightarrow> string \<Rightarrow> string" where
  "skip ws s = (if space_at ws s = 0 then s else skip ws (drop (space_at ws s) s))"
  by pat_completeness auto
termination
proof (relation "measure (\<lambda>(ws, s). length s)")
  show "wf (measure (\<lambda>(ws, s :: string). length s))" by simp
next
  fix ws :: "string list" and s :: string
  assume "space_at ws s \<noteq> 0"
  then obtain w where "find (\<lambda>w. prefix w s) ws = Some w" "length w \<noteq> 0"
    by (auto simp: space_at_def split: option.splits)
  then have "prefix w s" "w \<noteq> []"
    by (auto simp: find_Some_iff)
  then have "s \<noteq> []" by auto
  with \<open>space_at ws s \<noteq> 0\<close>
  show "((ws, drop (space_at ws s) s), (ws, s)) \<in> measure (\<lambda>(ws, s). length s)"
    by simp
qed

declare skip.simps [simp del]

text \<open>\<^verbatim>\<open>String.prototype.trim\<close> removes the white space and the line terminators at
  both ends; at the end the bytes are read backwards.\<close>

definition trimStart :: "string \<Rightarrow> string" where
  "trimStart s = skip white_space s"

definition trimEnd :: "string \<Rightarrow> string" where
  "trimEnd s = rev (skip (map rev white_space) (rev s))"

definition trim :: "string \<Rightarrow> string" where
  "trim s = trimStart (trimEnd s)"

text \<open>A template literal: the parts are evaluated left to right, the first exception
  ends the evaluation, otherwise the parts are concatenated.\<close>

fun template :: "(error + string) list \<Rightarrow> error + string" where
  "template [] = Inr []"
| "template (Inl e # ps) = Inl e"
| "template (Inr s # ps) = (case template ps of Inl e \<Rightarrow> Inl e | Inr r \<Rightarrow> Inr (s @ r))"

text \<open>\<^verbatim>\<open>escapeHtml(v)\<close> on a raw value: \<^verbatim>\<open>v.replace\<close> is a function on strings only, so
  the call throws a TypeError on anything else.\<close>

definition escapeHtml_js :: "jsval \<Rightarrow> error + string" where
  "escapeHtml_js v = (case v of Str s \<Rightarrow> Inr (escapeHtml s) | _ \<Rightarrow> Inl TypeError)"

text \<open>The literal text of the template of \<^verbatim>\<open>formatSecurityAlertEmail\<close> in
  \<^verbatim>\<open>src/email.ts\<close>, cut at the interpolations.\<close>

definition tpl_head :: string where
  \<open>tpl_head =
       ''\<newline>''
     @ ''<!DOCTYPE html>\<newline>''
     @ ''<html>\<newline>''
     @ ''<head>\<newline>''
     @ ''  <style>\<newline>''
     @ ''    body { font-family: -apple-system, BlinkMacSystemFont, 'Segoe UI', Roboto, sans-serif; line-height: 1.6; color: #333; }\<newline>''
     @ ''    .container { max-width: 600px; margin: 0 auto; padding: 20px; }\<newline>''
     @ ''    .header { background: #dc2626; color: white; padding: 20px; border-radius: 8px 8px 0 0; }\<newline>''
     @ ''    .content { background: #f9fafb; padding: 20px; border: 1px solid #e5e7eb; border-top: none; border-radius: 0 0 8px 8px; }\<newline>''
     @ ''    .field { margin-bottom: 12px; }\<newline>''
     @ ''    .label { font-weight: 600; color: #6b7280; font-size: 12px; text-transform: uppercase; }\<newline>''
     @ ''    .value { font-family: monospace; background: #e5e7eb; padding: 8px 12px; border-radius: 4px; word-break: break-all; }\<newline>''
     @ ''    .stack { font-size: 12px; white-space: pre-wrap; max-height: 200px; overflow: auto; }\<newline>''
     @ ''  </style>\<newline>''
     @ ''</head>\<newline>''
     @ ''<body>\<newline>''
     @ ''  <div class="container">\<newline>''
     @ ''    <div class="header">\<newline>''
     @ ''      <h2 style="margin: 0;">Security Alert</h2>\<newline>''
     @ ''      <p style="margin: 8px 0 0 0; opacity: 0.9;">''\<close>

definition tpl_application :: string where
  \<open>tpl_application =
       ''</p>\<newline>''
     @ ''    </div>\<newline>''
     @ ''    <div class="content">\<newline>''
     @ ''      <div class="field">\<newline>''
     @ ''        <div class="label">Application</div>\<newline>''
     @ ''        <div class="value">''\<close>

definition tpl_date :: string where
  \<open>tpl_date =
       ''</div>\<newline>''
     @ ''      </div>\<newline>''
     @ ''      <div class="field">\<newline>''
     @ ''        <div class="label">Date & Time</div>\<newline>''
     @ ''        <div class="value">''\<close>

definition tpl_url :: string where
  \<open>tpl_url =
       ''</div>\<newline>''
     @ ''      </div>\<newline>''
     @ ''      <div class="field">\<newline>''
     @ ''        <div class="label">Blocked URL</div>\<newline>''
     @ ''        <div class="value">''\<close>

definition tpl_hostname :: string where
  \<open>tpl_hostname =
       ''</div>\<newline>''
     @ ''      </div>\<newline>''
     @ ''      <div class="field">\<newline>''
     @ ''        <div class="label">Hostname</div>\<newline>''
     @ ''        <div class="value">''\<close>

definition tpl_fields_end :: string where
  \<open>tpl_fields_end =
       ''</div>\<newline>''
     @ ''      </div>\<newline>''
     @ ''      ''\<close>

definition tpl_gap :: string where
  \<open>tpl_gap =
       ''\<newline>''
     @ ''      ''\<close>

definition tpl_tail :: string where
  \<open>tpl_tail =
       ''\<newline>''
     @ ''    </div>\<newline>''
     @ ''  </div>\<newline>''
     @ ''</body>\<newline>''
     @ ''</html>\<newline>''
     @ ''  ''\<close>

definition tpl_appVersion :: string where
  \<open>tpl_appVersion =
       ''\<newline>''
     @ ''      <div class="field">\<newline>''
     @ ''        <div class="label">App Version</div>\<newline>''
     @ ''        <div class="value">''\<close>

definition tpl_userAgent :: string where
  \<open>tpl_userAgent =
       ''\<newline>''
     @ ''      <div class="field">\<newline>''
     @ ''        <div class="label">User Agent</div>\<newline>''
     @ ''        <div class="value">''\<close>

definition tpl_stack :: string where
  \<open>tpl_stack =
       ''\<newline>''
     @ ''      <div class="field">\<newline>''
     @ ''        <div class="label">Stack Trace</div>\<newline>''
     @ ''        <div class="value stack">''\<close>

definition tpl_metadata :: string where
  \<open>tpl_metadata =
       ''\<newline>''
     @ ''      <div class="field">\<newline>''
     @ ''        <div class="label">Additional Details</div>\<newline>''
     @ ''        <div class="value"><pre>''\<close>

definition tpl_block_end :: string where
  \<open>tpl_block_end =
       ''</div>\<newline>''
     @ ''      </div>\<newline>''
     @ ''      ''\<close>

definition tpl_metadata_end :: string where
  \<open>tpl_metadata_end =
       ''</pre></div>\<newline>''
     @ ''      </div>\<newline>''
     @ ''      ''\<close>

text \<open>The heading: \<^verbatim>\<open>alert.type.replace(/_/g, ' ').toUpperCase()\<close>.\<close>

definition type_heading :: "platform \<Rightarrow> string \<Rightarrow> string" where
  \<open>type_heading P t = toUpperCase P (replace_char (CHR ''_'') '' '' t)\<close>

text \<open>An optional field: \<^verbatim>\<open>v ? `...${escapeHtml(v)}...` : ''\<close>.\<close>

definition optional_field :: "jsval \<Rightarrow> string \<Rightarrow> string \<Rightarrow> error + string" where
  "optional_field v opening closing =
     (if truthy v then template [Inr opening, escapeHtml_js v, Inr closing] else Inr [])"

text \<open>\<^verbatim>\<open>formatSecurityAlertEmail\<close> of \<^verbatim>\<open>src/email.ts\<close>: the time stamp first, then the
  template, then \<^verbatim>\<open>trim\<close>.\<close>

definition formatSecurityAlertEmail :: "platform \<Rightarrow> SecurityAlert \<Rightarrow> error + string" where
  "formatSecurityAlertEmail P alert =
     (case toISOString P (timestamp alert) of
        None \<Rightarrow> Inl RangeError
      | Some ts \<Rightarrow>
          map_sum id trim (template
            [Inr tpl_head, Inr (type_heading P (alert_type alert)),
             Inr tpl_application, escapeHtml_js (Str (appName alert)),
             Inr tpl_date, Inr ts,
             Inr tpl_url, escapeHtml_js (alert_url alert),
             Inr tpl_hostname, escapeHtml_js (alert_hostname alert),
             Inr tpl_fields_end,
             optional_field (appVersion alert) tpl_appVersion tpl_block_end,
             Inr tpl_gap,
             optional_field (userAgent alert) tpl_userAgent tpl_block_end,
             Inr tpl_gap,
             optional_field (stack alert) tpl_stack tpl_block_end,
             Inr tpl_gap,
             (if truthy (metadata alert)
              then template [Inr tpl_metadata,
                             Inr (escapeHtml (stringify P (metadata alert))),
                             Inr tpl_metadata_end]
              else Inr []),
             Inr tpl_tail]))"

text \<open>\<^verbatim>\<open>formatSecurityAlertEmail\<close> of the older \<^verbatim>\<open>src/index.ts\<close>: the same literal
  text, without the field of the user agent.\<close>

definition formatSecurityAlertEmail_index :: "platform \<Rightarrow> SecurityAlert \<Rightarrow> error + string" where
  "formatSecurityAlertEmail_index P alert =
     (case toISOString P (timestamp alert) of
        None \<Rightarrow> Inl RangeError
      | Some ts \<Rightarrow>
          map_sum id trim (template
            [Inr tpl_head, Inr (type_heading P (alert_type alert)),
             Inr tpl_application, escapeHtml_js (Str (appName alert)),
             Inr tpl_date, Inr ts,
             Inr tpl_url, escapeHtml_js (alert_url alert),
             Inr tpl_hostname, escapeHtml_js (alert_hostname alert),
             Inr tpl_fields_end,
             optional_field (appVersion alert) tpl_appVersion tpl_block_end,
             Inr tpl_gap,
             optional_field (stack alert) tpl_stack tpl_block_end,
             Inr tpl_gap,
             (if truthy (metadata alert)
              then template [Inr tpl_metadata,
                             Inr (escapeHtml (stringify P (metadata alert))),
                             Inr tpl_metadata_end]
              else Inr []),
             Inr tpl_tail]))"

text \<open>The label element of a field of the rendered document.\<close>

definition label_div :: "string \<Rightarrow> string" where
  \<open>label_div name = ''<div class="label">'' @ name @ ''</div>''\<close>

text \<open>The value element of a field of the rendered document.\<close>

definition value_div :: "string \<Rightarrow> string" where
  \<open>value_div text = ''<div class="value">'' @ text @ ''</div>''\<close>

text \<open>What is assumed of \<^verbatim>\<open>toISOString\<close>: its result has no \<^verbatim>\<open><\<close> (it is made of
  digits and of \<^verbatim>\<open>-\<close>, \<^verbatim>\<open>+\<close>, \<^verbatim>\<open>:\<close>, \<^verbatim>\<open>.\<close>, \<^verbatim>\<open>T\<close>, \<^verbatim>\<open>Z\<close>).\<close>

definition iso_plain :: "platform \<Rightarrow> bool" where
  \<open>iso_plain P = (\<forall>t s. toISOString P t = Some s \<longrightarrow> CHR ''<'' \<notin> set s)\<close>

section \<open>The worker\<close>

text \<open>
  What the worker reads of a request: the method, the path and the \<^verbatim>\<open>appName\<close> query
  parameter of its URL, the \<^verbatim>\<open>Content-Length\<close> header (\<open>None\<close> when there is none), and
  the value \<^verbatim>\<open>request.json()\<close> resolves to (\<open>None\<close> when the body is not a JSON text
  and the call fails with a SyntaxError).
\<close>

record Request =
  req_method :: string
  req_pathname :: string
  req_appName_param :: "string option"
  req_content_length :: "string option"
  req_json :: "jsval option"

record Response =
  status :: nat
  headers :: "(string \<times> string) list"
  body :: "string option"

text \<open>The options \<^verbatim>\<open>sendEmail\<close> is called with. Every call of \<^verbatim>\<open>sendEmail\<close> is recorded:
  a handler returns its result, a response or an exception, together with the calls it
  made.\<close>

record Mail =
  mail_to :: string
  mail_subject :: string
  mail_html :: string

type_synonym handled = "(error + Response) \<times> Mail list"

definition MAX_REQUEST_BODY_SIZE :: int where
  "MAX_REQUEST_BODY_SIZE = 100 * 1024"

definition corsHeaders :: "(string \<times> string) list" where
  \<open>corsHeaders =
     [(''Access-Control-Allow-Origin'', ''*''),
      (''Access-Control-Allow-Methods'', ''POST, OPTIONS''),
      (''Access-Control-Allow-Headers'', ''Content-Type'')]\<close>

text \<open>A response with a JSON body: \<^verbatim>\<open>{ ...corsHeaders, 'Content-Type': 'application/json' }\<close>.\<close>

definition json_response :: "nat \<Rightarrow> string \<Rightarrow> Response" where
  \<open>json_response st text =
     \<lparr>status = st,
      headers = corsHeaders @ [(''Content-Type'', ''application/json'')],
      body = Some text\<rparr>\<close>

text \<open>\<^verbatim>\<open>JSON.stringify({ success: false, error: message })\<close>, for the messages of the
  source, none of which has a character that JSON escapes, and
  \<^verbatim>\<open>JSON.stringify({ success: emailSent })\<close>.\<close>

definition error_body :: "string \<Rightarrow> string" where
  \<open>error_body message = ''{"success":false,"error":"'' @ message @ ''"}''\<close>

definition success_body :: "bool \<Rightarrow> string" where
  \<open>success_body emailSent = ''{"success":'' @ (if emailSent then ''true'' else ''false'') @ ''}''\<close>

text \<open>\<^verbatim>\<open>new Response(null, { status: 204, headers: corsHeaders })\<close>.\<close>

definition no_content :: Response where
  "no_content = \<lparr>status = 204, headers = corsHeaders, body = None\<rparr>"

text \<open>\<^verbatim>\<open>parseInt(s, 10)\<close>: leading white space is skipped (\<open>trimStart\<close>), one sign is
  read, then the longest run of decimal digits; \<open>None\<close> stands for \<^verbatim>\<open>NaN\<close>. (The
  number JavaScript returns is the nearest double; comparing it with 102400 gives the
  same answer.)\<close>

definition is_digit :: "char \<Rightarrow> bool" where
  "is_digit c = (48 \<le> (of_char c :: nat) \<and> (of_char c :: nat) \<le> 57)"

definition digits_value :: "string \<Rightarrow> nat" where
  "digits_value ds = foldl (\<lambda>a c. 10 * a + ((of_char c :: nat) - 48)) 0 ds"

definition parseInt :: "string \<Rightarrow> int option" where
  \<open>parseInt s =
     (let t = trimStart s;
          negative = (t \<noteq> [] \<and> hd t = CHR ''-'');
          u = (if t \<noteq> [] \<and> (hd t = CHR ''-'' \<or> hd t = CHR ''+'') then tl t else t);
          ds = takeWhile is_digit u
      in if ds = [] then None
         else Some (if negative then - int (digits_value ds) else int (digits_value ds)))\<close>

text \<open>The size guard of \<^verbatim>\<open>fetch\<close>:
  \<^verbatim>\<open>contentLength && parseInt(contentLength, 10) > MAX_REQUEST_BODY_SIZE\<close>.\<close>

definition too_large :: "string option \<Rightarrow> bool" where
  "too_large contentLength =
     (case contentLength of
        None \<Rightarrow> False
      | Some cl \<Rightarrow>
          cl \<noteq> [] \<and> (case parseInt cl of None \<Rightarrow> False | Some n \<Rightarrow> n > MAX_REQUEST_BODY_SIZE))"

text \<open>Sequencing: an exception ends the evaluation.\<close>

definition then_do :: "error + 'a \<Rightarrow> ('a \<Rightarrow> error + 'b) \<Rightarrow> error + 'b" where
  "then_do r k = (case r of Inl e \<Rightarrow> Inl e | Inr v \<Rightarrow> k v)"

definition then_handle :: "error + 'a \<Rightarrow> ('a \<Rightarrow> handled) \<Rightarrow> handled" where
  "then_handle r k = (case r of Inl e \<Rightarrow> (Inl e, []) | Inr v \<Rightarrow> k v)"

definition isNonEmptyString :: "jsval \<Rightarrow> bool" where
  "isNonEmptyString v = (case v of Str s \<Rightarrow> length s > 0 | _ \<Rightarrow> False)"

text \<open>\<^verbatim>\<open>typeof v === 'string'\<close>, \<^verbatim>\<open>typeof v === 'number'\<close> and
  \<^verbatim>\<open>VALID_ALERT_TYPES.includes(v)\<close>.\<close>

definition is_string :: "jsval \<Rightarrow> bool" where
  "is_string v = (case v of Str _ \<Rightarrow> True | _ \<Rightarrow> False)"

definition is_number :: "jsval \<Rightarrow> bool" where
  "is_number v = (case v of Num _ \<Rightarrow> True | _ \<Rightarrow> False)"

definition array_includes :: "string list \<Rightarrow> jsval \<Rightarrow> bool" where
  "array_includes xs v = (case v of Str s \<Rightarrow> s \<in> set xs | _ \<Rightarrow> False)"

text \<open>\<^verbatim>\<open>validateAlertPayload\<close>: \<open>Inr None\<close> is the \<^verbatim>\<open>null\<close> of a valid payload,
  \<open>Inr (Some message)\<close> an error message, \<open>Inl\<close> an exception.\<close>

definition validateAlertPayload :: "jsval \<Rightarrow> error + string option" where
  \<open>validateAlertPayload payload =
     then_do (get_prop payload ''appName'') (\<lambda>name.
       if \<not> isNonEmptyString name then Inr (Some ''appName must be a non-empty string'')
       else then_do (get_prop payload ''type'') (\<lambda>ty.
         if \<not> isNonEmptyString ty \<or> \<not> array_includes VALID_ALERT_TYPES ty
         then Inr (Some (''type must be one of: '' @ join '', '' VALID_ALERT_TYPES))
         else then_do (get_prop payload ''url'') (\<lambda>url.
           if \<not> is_string url then Inr (Some ''url must be a string'')
           else then_do (get_prop payload ''hostname'') (\<lambda>hostname.
             if \<not> is_string hostname then Inr (Some ''hostname must be a string'')
             else then_do (get_prop payload ''timestamp'') (\<lambda>time.
               if \<not> is_number time then Inr (Some ''timestamp must be a number'')
               else Inr None)))))\<close>

text \<open>\<^verbatim>\<open>payload as unknown as SecurityAlert\<close>: the alert is the payload, read field by
  field. The cast is made after the validation, when the payload is not \<^verbatim>\<open>null\<close>, the
  name and the type are strings and the time stamp is a number.\<close>

definition field_of :: "jsval \<Rightarrow> string \<Rightarrow> jsval" where
  "field_of v k = (case get_prop v k of Inl _ \<Rightarrow> Undefined | Inr x \<Rightarrow> x)"

definition str_of :: "jsval \<Rightarrow> string" where
  "str_of v = (case v of Str s \<Rightarrow> s | _ \<Rightarrow> [])"

definition num_of :: "jsval \<Rightarrow> real" where
  "num_of v = (case v of Num n \<Rightarrow> n | _ \<Rightarrow> 0)"

definition alert_of_payload :: "jsval \<Rightarrow> SecurityAlert" where
  \<open>alert_of_payload payload =
     \<lparr>appName = str_of (field_of payload ''appName''),
      alert_type = str_of (field_of payload ''type''),
      alert_url = field_of payload ''url'',
      alert_hostname = field_of payload ''hostname'',
      timestamp = num_of (field_of payload ''timestamp''),
      stack = field_of payload ''stack'',
      appVersion = field_of payload ''appVersion'',
      userAgent = field_of payload ''userAgent'',
      metadata = field_of payload ''metadata''\<rparr>\<close>

text \<open>\<^verbatim>\<open>response.ok\<close>.\<close>

definition response_ok :: "nat \<Rightarrow> bool" where
  "response_ok st = (200 \<le> st \<and> st \<le> 299)"

text \<open>The request of \<^verbatim>\<open>sendEmail\<close>: the endpoint, the bearer credential, and the
  fields of the JSON body.\<close>

definition sendgrid_request :: "Env \<Rightarrow> string \<Rightarrow> Mail \<Rightarrow> Outbound" where
  \<open>sendgrid_request env key options =
     \<lparr>out_endpoint = ''https://api.sendgrid.com/v3/mail/send'',
      out_authorization = ''Bearer '' @ key,
      out_to = mail_to options,
      out_from = env ''FROM_EMAIL'',
      out_subject = mail_subject options,
      out_html = mail_html options\<rparr>\<close>

text \<open>\<^verbatim>\<open>sendEmail\<close>. There is no \<^verbatim>\<open>try\<close> in it: a rejected \<^verbatim>\<open>fetch\<close> is an exception
  of \<^verbatim>\<open>sendEmail\<close>, and so is a failing \<^verbatim>\<open>response.text()\<close> on the error path.\<close>

definition sendEmail :: "platform \<Rightarrow> Env \<Rightarrow> Mail \<Rightarrow> error + bool" where
  \<open>sendEmail P env options =
     (case env ''SENDGRID_API_KEY'' of
        None \<Rightarrow> Inr False
      | Some key \<Rightarrow>
          if key = [] then Inr False
          else
            (case outbound_fetch P (sendgrid_request env key options) of
               Rejected \<Rightarrow> Inl NetworkError
             | Responded st text \<Rightarrow>
                 if \<not> response_ok st
                 then (case text of None \<Rightarrow> Inl NetworkError | Some _ \<Rightarrow> Inr False)
                 else Inr True))\<close>

text \<open>\<^verbatim>\<open>!recipient\<close>: no entry, or an empty one.\<close>

definition no_recipient :: "string option \<Rightarrow> bool" where
  "no_recipient r = (case r of None \<Rightarrow> True | Some a \<Rightarrow> a = [])"

text \<open>\<^verbatim>\<open>handleSecurityAlert\<close>. The arguments of \<^verbatim>\<open>sendEmail\<close> are evaluated before the
  call, so an exception of the renderer comes before any call.\<close>

definition handleSecurityAlert :: "platform \<Rightarrow> Env \<Rightarrow> Request \<Rightarrow> handled" where
  \<open>handleSecurityAlert P env request =
     (case req_json request of
        None \<Rightarrow> (Inl SyntaxError, [])
      | Some payload \<Rightarrow>
          then_handle (validateAlertPayload payload) (\<lambda>validationError.
            case validationError of
              Some message \<Rightarrow> (Inr (json_response 400 (error_body message)), [])
            | None \<Rightarrow>
                let alert = alert_of_payload payload;
                    recipient = getRecipientEmail P (appName alert) env
                in if no_recipient recipient
                   then (Inr (json_response 400 (error_body ''Unknown app'')), [])
                   else
                     then_handle (formatSecurityAlertEmail P alert) (\<lambda>html.
                       let options =
                             \<lparr>mail_to = the recipient,
                              mail_subject =
                                ''[Security Alert] '' @ appName alert @ '': '' @ alert_type alert,
                              mail_html = html\<rparr>
                       in case sendEmail P env options of
                            Inl e \<Rightarrow> (Inl e, [options])
                          | Inr emailSent \<Rightarrow>
                              (Inr (json_response (if emailSent then 200 else 500)
                                      (success_body emailSent)),
                               [options]))))\<close>

text \<open>The application name of a CSP report:
  \<^verbatim>\<open>url.searchParams.get('appName') || inferAppName(cspData['document-uri'])\<close>. The right
  operand is evaluated only when the left one is \<^verbatim>\<open>null\<close> or empty.\<close>

definition csp_appName :: "platform \<Rightarrow> Request \<Rightarrow> jsval \<Rightarrow> error + string option" where
  \<open>csp_appName P request cspData =
     (case req_appName_param request of
        Some q \<Rightarrow>
          if q \<noteq> [] then Inr (Some q)
          else then_do (get_prop cspData ''document-uri'') (\<lambda>d. Inr (inferAppName P d))
      | None \<Rightarrow> then_do (get_prop cspData ''document-uri'') (\<lambda>d. Inr (inferAppName P d)))\<close>

text \<open>The alert that \<^verbatim>\<open>handleCspReport\<close> builds.\<close>

definition csp_alert :: "platform \<Rightarrow> jsval \<Rightarrow> string \<Rightarrow> error + SecurityAlert" where
  \<open>csp_alert P cspData name =
     then_do (get_prop cspData ''blocked-uri'') (\<lambda>blocked.
     then_do (get_prop cspData ''document-uri'') (\<lambda>documentUri.
     then_do (get_prop cspData ''violated-directive'') (\<lambda>violatedDirective.
     then_do (get_prop cspData ''original-policy'') (\<lambda>originalPolicy.
     then_do (get_prop cspData ''source-file'') (\<lambda>sourceFile.
     then_do (get_prop cspData ''line-number'') (\<lambda>lineNumber.
       Inr \<lparr>appName = name,
            alert_type = ''csp_violation'',
            alert_url = blocked,
            alert_hostname = extractHostname P blocked,
            timestamp = date_now P,
            stack = Undefined,
            appVersion = Undefined,
            userAgent = Undefined,
            metadata = Obj [(''documentUri'', documentUri),
                            (''violatedDirective'', violatedDirective),
                            (''originalPolicy'', originalPolicy),
                            (''sourceFile'', sourceFile),
                            (''lineNumber'', lineNumber)]\<rparr>))))))\<close>

text \<open>The subject of a CSP mail:
  \<^verbatim>\<open>`[CSP Violation] ${appName}: ${cspData['violated-directive']}`\<close>.\<close>

definition csp_subject :: "platform \<Rightarrow> jsval \<Rightarrow> string \<Rightarrow> error + string" where
  \<open>csp_subject P cspData name =
     then_do (get_prop cspData ''violated-directive'') (\<lambda>directive.
       case to_string P directive of
         None \<Rightarrow> Inl TypeError
       | Some d \<Rightarrow> Inr (''[CSP Violation] '' @ name @ '': '' @ d))\<close>

text \<open>\<^verbatim>\<open>handleCspReport\<close>. The result of \<^verbatim>\<open>sendEmail\<close> is not looked at.\<close>

definition handleCspReport :: "platform \<Rightarrow> Env \<Rightarrow> Request \<Rightarrow> handled" where
  \<open>handleCspReport P env request =
     (case req_json request of
        None \<Rightarrow> (Inl SyntaxError, [])
      | Some report \<Rightarrow>
          then_handle (get_prop report ''csp-report'') (\<lambda>cspData.
          then_handle (csp_appName P request cspData) (\<lambda>name.
            case name of
              None \<Rightarrow> (Inr no_content, [])
            | Some app \<Rightarrow>
                let recipient = getRecipientEmail P app env
                in if no_recipient recipient then (Inr no_content, [])
                   else
                     then_handle (csp_alert P cspData app) (\<lambda>alert.
                     then_handle (csp_subject P cspData app) (\<lambda>subject.
                     then_handle (formatSecurityAlertEmail P alert) (\<lambda>html.
                       let options =
                             \<lparr>mail_to = the recipient, mail_subject = subject, mail_html = html\<rparr>
                       in case sendEmail P env options of
                            Inl e \<Rightarrow> (Inl e, [options])
                          | Inr _ \<Rightarrow> (Inr no_content, [options])))))))\<close>

text \<open>The \<^verbatim>\<open>fetch\<close> handler of the worker: the response, and the calls of \<^verbatim>\<open>sendEmail\<close>
  made on the way. The \<^verbatim>\<open>catch\<close> turns every exception of a handler into the
  response 500.\<close>

definition route :: "platform \<Rightarrow> Env \<Rightarrow> Request \<Rightarrow> handled" where
  \<open>route P env request =
     (let path = req_pathname request
      in if path = ''/alert'' \<or> path = ''/security-alert'' then handleSecurityAlert P env request
         else if path = ''/csp-report'' then handleCspReport P env request
         else (Inr \<lparr>status = 404, headers = corsHeaders, body = Some ''Not found''\<rparr>, []))\<close>

definition worker_fetch :: "platform \<Rightarrow> Env \<Rightarrow> Request \<Rightarrow> Response \<times> Mail list" where
  \<open>worker_fetch P env request =
     (if req_method request = ''OPTIONS''
      then (\<lparr>status = 200, headers = corsHeaders, body = None\<rparr>, [])
      else if req_method request \<noteq> ''POST''
      then (\<lparr>status = 405, headers = corsHeaders, body = Some ''Method not allowed''\<rparr>, [])
      else if too_large (req_content_length request)
      then (json_response 413 (error_body ''Payload too large''), [])
      else
        (case route P env request of
           (Inl error, mails) \<Rightarrow> (json_response 500 (error_body ''Internal error''), mails)
         | (Inr response, mails) \<Rightarrow> (response, mails)))\<close>

section \<open>Sample inputs\<close>

text \<open>The environment and the requests of the repository's tests, and a platform that
  knows the URLs of those tests and answers every outbound request with one outcome.\<close>

definition sample_env :: Env where
  \<open>sample_env =
     [''SENDGRID_API_KEY'' \<mapsto> ''test-api-key'',
      ''FROM_EMAIL'' \<mapsto> ''security@test.com'',
      ''APP_MAIL_BOX_EMAIL'' \<mapsto> ''mailbox@test.com'',
      ''APP_MAIL_BOX_WALLET_EMAIL'' \<mapsto> ''wallet@test.com'']\<close>

definition sample_URL :: "jsval \<Rightarrow> URL option" where
  \<open>sample_URL v =
     (if v = Str ''https://app.signic.email/inbox''
      then Some \<lparr>url_hostname = ''app.signic.email'', url_protocol = ''https:''\<rparr>
      else if v = Str ''chrome-extension://abcd1234/popup.html''
      then Some \<lparr>url_hostname = ''abcd1234'', url_protocol = ''chrome-extension:''\<rparr>
      else if v = Str ''https://tracker.com/pixel.gif''
      then Some \<lparr>url_hostname = ''tracker.com'', url_protocol = ''https:''\<rparr>
      else None)\<close>

text \<open>The upper-casing of the sample platform, which is that of JavaScript on the
  characters up to U+00FF: the letters \<^verbatim>\<open>a\<close> to \<^verbatim>\<open>z\<close> and the accented letters
  U+00E0 to U+00FE (the division sign U+00F7 apart) move down by 32, the sharp s
  U+00DF becomes \<^verbatim>\<open>SS\<close>, U+00FF becomes U+0178 and the micro sign U+00B5 becomes
  U+039C. Every other character is kept; the samples hold no letter above U+00FF.\<close>

fun sample_upper :: "string \<Rightarrow> string" where
  "sample_upper [] = []"
| "sample_upper [c] = [ascii_upper c]"
| \<open>sample_upper (c # d # s) =
     (if c = CHR 0xC3 \<and> d = CHR 0x9F then ''SS'' @ sample_upper s
      else if c = CHR 0xC3 \<and> d = CHR 0xBF then [CHR 0xC5, CHR 0xB8] @ sample_upper s
      else if c = CHR 0xC2 \<and> d = CHR 0xB5 then [CHR 0xCE, CHR 0x9C] @ sample_upper s
      else if c = CHR 0xC3 \<and> 0xA0 \<le> (of_char d :: nat) \<and> (of_char d :: nat) \<le> 0xBE
              \<and> d \<noteq> CHR 0xB7
      then [c, char_of ((of_char d :: nat) - 32)] @ sample_upper s
      else ascii_upper c # sample_upper (d # s))\<close>

text \<open>The conversion to a string of the sample platform. A whole number below 10^21 in
  size is printed in decimal, as JavaScript does; the samples hold no other number, and
  the sample platform has the one text \<^verbatim>\<open>NaN\<close> for them. An array is the join of its elements, \<^verbatim>\<open>null\<close> and \<^verbatim>\<open>undefined\<close>
  giving the empty string; an object is \<^verbatim>\<open>[object Object]\<close>, unless it has a property
  \<^verbatim>\<open>toString\<close> of its own, which is not a function: then the conversion throws.\<close>

fun decimal :: "nat \<Rightarrow> string" where
  "decimal n =
     (if n < 10 then [char_of (48 + n)] else decimal (n div 10) @ [char_of (48 + n mod 10)])"

definition sample_number :: "real \<Rightarrow> string" where
  \<open>sample_number n =
     (if n = of_int \<lfloor>n\<rfloor> \<and> \<bar>n\<bar> < 10 ^ 21
      then (if n < 0 then ''-'' @ decimal (nat (- \<lfloor>n\<rfloor>)) else decimal (nat \<lfloor>n\<rfloor>))
      else ''NaN'')\<close>

fun sample_to_string :: "jsval \<Rightarrow> string option" where
  \<open>sample_to_string Undefined = Some ''undefined''\<close>
| \<open>sample_to_string Null = Some ''null''\<close>
| \<open>sample_to_string (Bool b) = Some (if b then ''true'' else ''false'')\<close>
| \<open>sample_to_string (Num n) = Some (sample_number n)\<close>
| \<open>sample_to_string (Str s) = Some s\<close>
| \<open>sample_to_string (Arr vs) =
     (let parts = map (\<lambda>v. if v = Undefined \<or> v = Null then Some [] else sample_to_string v) vs
      in if None \<in> set parts then None else Some (join '','' (map the parts)))\<close>
| \<open>sample_to_string (Obj kvs) =
     (if ''toString'' \<in> fst ` set kvs then None else Some ''[object Object]'')\<close>

definition sample_platform :: "fetch_result \<Rightarrow> platform" where
  \<open>sample_platform outcome =
     \<lparr>new_URL = sample_URL,
      toISOString = (\<lambda>t. if t = 1700000000000 then Some ''2023-11-14T22:13:20.000Z'' else None),
      stringify = (\<lambda>v. ''{}''),
      to_string = sample_to_string,
      date_now = 1700000000000,
      outbound_fetch = (\<lambda>r. outcome),
      upper_other = sample_upper\<rparr>\<close>

definition sample_payload :: "string \<Rightarrow> jsval" where
  \<open>sample_payload name =
     Obj [(''appName'', Str name),
          (''type'', Str ''unauthorized_fetch''),
          (''url'', Str ''https://malicious.com/api''),
          (''hostname'', Str ''malicious.com''),
          (''timestamp'', Num 1700000000000)]\<close>

definition sample_alert :: "jsval \<Rightarrow> SecurityAlert" where
  \<open>sample_alert version =
     \<lparr>appName = ''mail_box'',
      alert_type = ''unauthorized_fetch'',
      alert_url = Str ''https://malicious.com/api'',
      alert_hostname = Str ''malicious.com'',
      timestamp = 1700000000000,
      stack = Undefined,
      appVersion = version,
      userAgent = Undefined,
      metadata = Undefined\<rparr>\<close>

definition sample_report :: "string \<Rightarrow> jsval" where
  \<open>sample_report blocked =
     Obj [(''csp-report'',
           Obj [(''document-uri'', Str ''https://app.signic.email/inbox''),
                (''violated-directive'', Str ''img-src''),
                (''blocked-uri'', Str blocked)])]\<close>

definition post_request :: "string \<Rightarrow> string option \<Rightarrow> string option \<Rightarrow> jsval option \<Rightarrow> Request" where
  \<open>post_request path param content_length json =
     \<lparr>req_method = ''POST'',
      req_pathname = path,
      req_appName_param = param,
      req_content_length = content_length,
      req_json = json\<rparr>\<close>

section \<open>Notions used in the statements and proofs\<close>

text \<open>The rendered document is the template without the line break before
  \<^verbatim>\<open><!DOCTYPE html>\<close> and without the white space after \<^verbatim>\<open></html>\<close>.\<close>

definition doc_head :: string where
  "doc_head = tl tpl_head"

definition doc_tail :: string where
  "doc_tail = butlast (butlast (butlast tpl_tail))"

text \<open>The part of the document before the optional fields.\<close>

definition document_front :: "string \<Rightarrow> string \<Rightarrow> string \<Rightarrow> string \<Rightarrow> string \<Rightarrow> string" where
  "document_front heading name ts u h =
     heading @ tpl_application @ escapeHtml name @ tpl_date @ ts
       @ tpl_url @ escapeHtml u @ tpl_hostname @ escapeHtml h @ tpl_fields_end"

text \<open>A piece of text is clear of a needle when no occurrence of the needle starts
  in it, whatever follows the piece.\<close>

definition clear :: "string \<Rightarrow> string \<Rightarrow> bool" where
  "clear n x = (\<forall>r. str_includes (x @ r) n = str_includes r n)"

definition optional_labels :: "string set" where
  \<open>optional_labels = {''App Version'', ''Stack Trace'', ''Additional Details''}\<close>

text \<open>The optional string fields of the interface \<^verbatim>\<open>SecurityAlert\<close>: absent, or a
  string.\<close>

definition optional_string :: "jsval \<Rightarrow> bool" where
  "optional_string v = (v = Undefined \<or> is_string v)"

definition typed_alert :: "SecurityAlert \<Rightarrow> bool" where
  "typed_alert a =
     (is_string (alert_url a) \<and> is_string (alert_hostname a)
      \<and> optional_string (stack a) \<and> optional_string (appVersion a)
      \<and> optional_string (userAgent a))"

text \<open>The checks of the required fields, as the specification lists them, and the
  messages of the validation.\<close>

definition fields_valid :: "jsval \<Rightarrow> bool" where
  \<open>fields_valid payload =
     (isNonEmptyString (field_of payload ''appName'')
      \<and> isNonEmptyString (field_of payload ''type'')
      \<and> array_includes VALID_ALERT_TYPES (field_of payload ''type'')
      \<and> is_string (field_of payload ''url'')
      \<and> is_string (field_of payload ''hostname'')
      \<and> is_number (field_of payload ''timestamp''))\<close>

definition validation_messages :: "string set" where
  \<open>validation_messages =
     {''appName must be a non-empty string'',
      ''type must be one of: unauthorized_fetch, unauthorized_xhr, unauthorized_websocket, csp_violation'',
      ''url must be a string'',
      ''hostname must be a string'',
      ''timestamp must be a number''}\<close>

section \<open>The escaper\<close>

lemma replace_char_append:
  "replace_char c r (xs @ ys) = replace_char c r xs @ replace_char c r ys"
  by (induction xs) simp_all

lemma escapeHtml_Nil: "escapeHtml [] = []"
  by (simp add: escapeHtml_def)

lemma escapeHtml_append: "escapeHtml (xs @ ys) = escapeHtml xs @ escapeHtml ys"
  by (simp add: escapeHtml_def replace_char_append)

lemma escapeHtml_single: "escapeHtml [c] = html_entity c"
  by (simp add: escapeHtml_def html_entity_def)

lemma escapeHtml_Cons: "escapeHtml (c # cs) = html_entity c @ escapeHtml cs"
  using escapeHtml_append [of "[c]" cs] by (simp add: escapeHtml_single)

lemma escapeHtml_concat: "escapeHtml s = concat (map html_entity s)"
  by (induction s) (simp_all add: escapeHtml_Nil escapeHtml_Cons)

lemma html_entity_plain: "c \<notin> html_special \<Longrightarrow> html_entity c = [c]"
  by (simp add: html_entity_def html_special_def)

lemma escapeHtml_plain: "set s \<inter> html_special = {} \<Longrightarrow> escapeHtml s = s"
  by (induction s) (simp_all add: escapeHtml_Nil escapeHtml_Cons html_entity_plain)

text \<open>
  C1. For every string, the escaper returns the string with each of the five characters
  replaced by its entity and every other character kept, as one pass over the input would
  do: the ampersands of the entities it produces are not escaped again. A string with
  none of the five characters comes back unchanged, and the empty string gives the empty
  string.
\<close>

theorem escapeHtml_spec:
  "escapeHtml s = concat (map html_entity s)
   \<and> (set s \<inter> html_special = {} \<longrightarrow> escapeHtml s = s)
   \<and> escapeHtml [] = []"
  by (simp add: escapeHtml_concat [symmetric] escapeHtml_plain escapeHtml_Nil)

theorem escapeHtml_spec_witness:
  \<open>set ''hello world'' \<inter> html_special = {}
   \<and> escapeHtml ''hello world'' = ''hello world''
   \<and> escapeHtml ''<a href="x">Tom & Jerry's</a>''
       = ''&lt;a href=&quot;x&quot;&gt;Tom &amp; Jerry&#039;s&lt;/a&gt;''\<close>
proof -
  have plain: \<open>set ''hello world'' \<inter> html_special = {}\<close>
    by (simp add: html_special_def)
  have \<open>escapeHtml ''hello world'' = ''hello world''\<close>
    using escapeHtml_spec [of \<open>''hello world''\<close>] plain by blast
  moreover have \<open>escapeHtml ''<a href="x">Tom & Jerry's</a>''
       = ''&lt;a href=&quot;x&quot;&gt;Tom &amp; Jerry&#039;s&lt;/a&gt;''\<close>
    using escapeHtml_spec [of \<open>''<a href="x">Tom & Jerry's</a>''\<close>]
    by (simp add: html_entity_def)
  ultimately show ?thesis using plain by simp
qed

section \<open>The registry\<close>

lemma replace_hyphen_map:
  \<open>replace_char (CHR ''-'') ''_'' s = map (\<lambda>c. if c = CHR ''-'' then CHR ''_'' else c) s\<close>
  by (induction s) simp_all

lemma hyphen_agree_replace:
  assumes "list_all2 hyphen_agree u v"
  shows \<open>replace_char (CHR ''-'') ''_'' u = replace_char (CHR ''-'') ''_'' v\<close>
  using assms unfolding replace_hyphen_map
  by (induction u v rule: list_all2_induct) (auto simp: hyphen_agree_def)

lemma toUpperCase_ascii: "list_all is_ascii s \<Longrightarrow> toUpperCase P s = map ascii_upper s"
  by (simp add: toUpperCase_def)

lemma ascii_upper_lower:
  assumes "is_lower x" "(of_char y :: nat) + 32 = of_char x"
  shows "ascii_upper x = y" "ascii_upper y = y"
proof -
  from assms have r: "97 \<le> (of_char x :: nat)" "(of_char x :: nat) \<le> 122"
    by (simp_all add: is_lower_def)
  have "(of_char x :: nat) - 32 = of_char y" using assms(2) by simp
  then show "ascii_upper x = y" using r by (simp add: ascii_upper_def)
  have "(of_char y :: nat) \<le> 90" using assms(2) r by simp
  then show "ascii_upper y = y" by (simp add: ascii_upper_def)
qed

lemma agree_char_upper: "agree_char x y \<Longrightarrow> hyphen_agree (ascii_upper x) (ascii_upper y)"
  unfolding agree_char_def
proof (elim disjE conjE)
  assume "x = y" then show ?thesis by (simp add: hyphen_agree_def)
next
  assume \<open>x \<in> {CHR ''-'', CHR ''_''}\<close> \<open>y \<in> {CHR ''-'', CHR ''_''}\<close>
  then show ?thesis by (auto simp: hyphen_agree_def ascii_upper_def)
next
  assume "is_lower x" "(of_char y :: nat) + 32 = of_char x"
  then show ?thesis using ascii_upper_lower by (simp add: hyphen_agree_def)
next
  assume "is_lower y" "(of_char x :: nat) + 32 = of_char y"
  then show ?thesis using ascii_upper_lower by (simp add: hyphen_agree_def)
qed

lemma agree_char_ascii: "agree_char x y \<Longrightarrow> is_ascii x \<Longrightarrow> is_ascii y"
  by (auto simp: agree_char_def is_ascii_def is_lower_def)

lemma same_ascii_name_ascii: "same_ascii_name a b \<Longrightarrow> list_all is_ascii b"
proof -
  have "list_all2 agree_char a b \<Longrightarrow> list_all is_ascii a \<Longrightarrow> list_all is_ascii b"
    by (induction a b rule: list_all2_induct) (auto intro: agree_char_ascii)
  then show "same_ascii_name a b \<Longrightarrow> list_all is_ascii b"
    by (simp add: same_ascii_name_def)
qed

lemma same_ascii_name_same: "same_ascii_name a b \<Longrightarrow> same_name P a b"
proof -
  assume s: "same_ascii_name a b"
  then have a: "list_all is_ascii a" and ab: "list_all2 agree_char a b"
    by (simp_all add: same_ascii_name_def)
  have b: "list_all is_ascii b" using s by (rule same_ascii_name_ascii)
  from ab have "list_all2 hyphen_agree (map ascii_upper a) (map ascii_upper b)"
    by (induction a b rule: list_all2_induct) (simp_all add: agree_char_upper)
  then show "same_name P a b"
    by (simp add: same_name_def toUpperCase_ascii a b)
qed

lemma same_name_resolve:
  "same_name P a b \<Longrightarrow> getRecipientEmail P a env = getRecipientEmail P b env"
  by (simp add: getRecipientEmail_def same_name_def hyphen_agree_replace)

text \<open>
  C2. The resolver upper-cases the name, turns every hyphen into an underscore and looks
  up \<^verbatim>\<open>APP_<NORMALIZED>_EMAIL\<close>: the result is the entry of that key, the address when
  there is one and nothing otherwise, and there is no exception. On an ASCII name the
  upper-casing is the shift of the letters \<^verbatim>\<open>a\<close> to \<^verbatim>\<open>z\<close>; on any other name it is
  what the runtime gives. Two names that agree up to letter case and hyphen versus
  underscore resolve to the same result in every registry: whenever their upper-case
  forms agree up to hyphen versus underscore, and so whenever two ASCII names agree
  position by position up to the case of a letter and hyphen versus underscore. The four
  spellings of \<^verbatim>\<open>mail_box\<close> all read \<^verbatim>\<open>APP_MAIL_BOX_EMAIL\<close>.
\<close>

theorem getRecipientEmail_spec:
  \<open>getRecipientEmail P name env
     = env (''APP_'' @ replace_char (CHR ''-'') ''_'' (toUpperCase P name) @ ''_EMAIL'')
   \<and> (list_all is_ascii name \<longrightarrow> toUpperCase P name = map ascii_upper name)
   \<and> (same_name P a b \<longrightarrow> getRecipientEmail P a env = getRecipientEmail P b env)
   \<and> (same_ascii_name a b \<longrightarrow> getRecipientEmail P a env = getRecipientEmail P b env)
   \<and> getRecipientEmail P ''mail-box'' env = env ''APP_MAIL_BOX_EMAIL''
   \<and> getRecipientEmail P ''Mail_Box'' env = env ''APP_MAIL_BOX_EMAIL''
   \<and> getRecipientEmail P ''MAIL_BOX'' env = env ''APP_MAIL_BOX_EMAIL''
   \<and> getRecipientEmail P ''mail_box'' env = env ''APP_MAIL_BOX_EMAIL''\<close>
proof -
  have \<open>getRecipientEmail P name env
     = env (''APP_'' @ replace_char (CHR ''-'') ''_'' (toUpperCase P name) @ ''_EMAIL'')\<close>
    by (simp add: getRecipientEmail_def)
  moreover have "list_all is_ascii name \<longrightarrow> toUpperCase P name = map ascii_upper name"
    by (simp add: toUpperCase_ascii)
  moreover have "same_name P a b \<longrightarrow> getRecipientEmail P a env = getRecipientEmail P b env"
    by (simp add: same_name_resolve)
  moreover have "same_ascii_name a b \<longrightarrow> getRecipientEmail P a env = getRecipientEmail P b env"
    using same_ascii_name_same same_name_resolve by blast
  moreover have \<open>getRecipientEmail P ''mail-box'' env = env ''APP_MAIL_BOX_EMAIL''\<close>
    \<open>getRecipientEmail P ''Mail_Box'' env = env ''APP_MAIL_BOX_EMAIL''\<close>
    \<open>getRecipientEmail P ''MAIL_BOX'' env = env ''APP_MAIL_BOX_EMAIL''\<close>
    \<open>getRecipientEmail P ''mail_box'' env = env ''APP_MAIL_BOX_EMAIL''\<close>
    by code_simp+
  ultimately show ?thesis by blast
qed

theorem getRecipientEmail_spec_witness:
  \<open>same_ascii_name ''mail-box'' ''Mail_Box''
   \<and> getRecipientEmail (sample_platform Rejected) ''mail-box'' sample_env
       = getRecipientEmail (sample_platform Rejected) ''Mail_Box'' sample_env
   \<and> getRecipientEmail (sample_platform Rejected) ''Mail_Box'' sample_env = Some ''mailbox@test.com''
   \<and> same_name (sample_platform Rejected) (''caf'' @ [CHR 0xC3, CHR 0xA9]) (''CAF'' @ [CHR 0xC3, CHR 0x89])
   \<and> getRecipientEmail (sample_platform Rejected) (''caf'' @ [CHR 0xC3, CHR 0xA9]) sample_env
       = getRecipientEmail (sample_platform Rejected) (''CAF'' @ [CHR 0xC3, CHR 0x89]) sample_env\<close>
proof -
  let ?P = "sample_platform Rejected"
  have s: \<open>same_ascii_name ''mail-box'' ''Mail_Box''\<close>
    by code_simp
  have c: \<open>same_name ?P (''caf'' @ [CHR 0xC3, CHR 0xA9]) (''CAF'' @ [CHR 0xC3, CHR 0x89])\<close>
    by code_simp
  note spec = getRecipientEmail_spec [of ?P \<open>''mail-box''\<close> sample_env \<open>''mail-box''\<close> \<open>''Mail_Box''\<close>]
  note accent = getRecipientEmail_spec
    [of ?P \<open>''mail-box''\<close> sample_env \<open>''caf'' @ [CHR 0xC3, CHR 0xA9]\<close> \<open>''CAF'' @ [CHR 0xC3, CHR 0x89]\<close>]
  have \<open>getRecipientEmail ?P ''mail-box'' sample_env = getRecipientEmail ?P ''Mail_Box'' sample_env\<close>
    using spec s by blast
  moreover have \<open>getRecipientEmail ?P ''Mail_Box'' sample_env = sample_env ''APP_MAIL_BOX_EMAIL''\<close>
    using spec by blast
  moreover have \<open>getRecipientEmail ?P (''caf'' @ [CHR 0xC3, CHR 0xA9]) sample_env
       = getRecipientEmail ?P (''CAF'' @ [CHR 0xC3, CHR 0x89]) sample_env\<close>
    using accent c by blast
  ultimately show ?thesis using s c by (simp add: sample_env_def)
qed

section \<open>The inference of the application name\<close>

lemma str_includes_sublist: "str_includes h n \<longleftrightarrow> sublist n h"
  by (induction h) (simp_all add: sublist_Cons_right)

text \<open>
  C5. For a document URI given as a string: when \<^verbatim>\<open>new URL\<close> fails there is no
  inference, and no exception; when it succeeds the result is \<^verbatim>\<open>mail_box\<close> if the
  host name contains \<^verbatim>\<open>signic.email\<close>, otherwise \<^verbatim>\<open>mail_box_wallet\<close> if the scheme
  is \<^verbatim>\<open>chrome-extension:\<close>, otherwise no inference.
\<close>

theorem inferAppName_spec:
  \<open>(new_URL P (Str s) = None \<longrightarrow> inferAppName P (Str s) = None)
   \<and> (\<forall>u. new_URL P (Str s) = Some u \<longrightarrow>
         inferAppName P (Str s) =
           (if sublist ''signic.email'' (url_hostname u) then Some ''mail_box''
            else if url_protocol u = ''chrome-extension:'' then Some ''mail_box_wallet''
            else None))\<close>
  by (simp add: inferAppName_def str_includes_sublist)

theorem inferAppName_spec_witness:
  \<open>new_URL (sample_platform Rejected) (Str ''not a url'') = None
   \<and> inferAppName (sample_platform Rejected) (Str ''not a url'') = None
   \<and> new_URL (sample_platform Rejected) (Str ''https://app.signic.email/inbox'')
       = Some \<lparr>url_hostname = ''app.signic.email'', url_protocol = ''https:''\<rparr>
   \<and> inferAppName (sample_platform Rejected) (Str ''https://app.signic.email/inbox'')
       = Some ''mail_box''
   \<and> inferAppName (sample_platform Rejected) (Str ''chrome-extension://abcd1234/popup.html'')
       = Some ''mail_box_wallet''\<close>
proof -
  let ?P = "sample_platform Rejected"
  have n: \<open>new_URL ?P (Str ''not a url'') = None\<close>
    by (simp add: sample_platform_def sample_URL_def)
  have u: \<open>new_URL ?P (Str ''https://app.signic.email/inbox'')
       = Some \<lparr>url_hostname = ''app.signic.email'', url_protocol = ''https:''\<rparr>\<close>
    by (simp add: sample_platform_def sample_URL_def)
  have c: \<open>new_URL ?P (Str ''chrome-extension://abcd1234/popup.html'')
       = Some \<lparr>url_hostname = ''abcd1234'', url_protocol = ''chrome-extension:''\<rparr>\<close>
    by (simp add: sample_platform_def sample_URL_def)
  have \<open>inferAppName ?P (Str ''not a url'') = None\<close>
    using inferAppName_spec [of ?P \<open>''not a url''\<close>] n by blast
  moreover have \<open>inferAppName ?P (Str ''https://app.signic.email/inbox'') = Some ''mail_box''\<close>
    using inferAppName_spec [of ?P \<open>''https://app.signic.email/inbox''\<close>] u
    by (simp add: str_includes_sublist [symmetric])
  moreover have \<open>inferAppName ?P (Str ''chrome-extension://abcd1234/popup.html'')
       = Some ''mail_box_wallet''\<close>
    using inferAppName_spec [of ?P \<open>''chrome-extension://abcd1234/popup.html''\<close>] c
    by (simp add: str_includes_sublist [symmetric])
  ultimately show ?thesis using n u by simp
qed

section \<open>The rendered document\<close>

lemma clear_append: "clear n x \<Longrightarrow> clear n y \<Longrightarrow> clear n (x @ y)"
  by (simp add: clear_def)

lemma clear_Nil: "clear n []" by (simp add: clear_def)

lemma clear_free: "c \<notin> set x \<Longrightarrow> clear (c # n) x"
  by (induction x) (simp_all add: clear_def)

lemma clear_not_includes: "clear n x \<Longrightarrow> n \<noteq> [] \<Longrightarrow> \<not> str_includes x n"
  using clear_def [of n x] by (metis append_Nil2 str_includes.simps(1))

lemma label_div_Cons: \<open>label_div name = CHR ''<'' # ''div class="label">'' @ name @ ''</div>''\<close>
  by (simp add: label_div_def)

lemma clear_label_free: \<open>CHR ''<'' \<notin> set x \<Longrightarrow> clear (label_div name) x\<close>
  by (simp add: label_div_Cons clear_free)

lemma html_entity_no_lt: \<open>CHR ''<'' \<notin> set (html_entity c)\<close>
  by (simp add: html_entity_def)

lemma escapeHtml_no_lt: \<open>CHR ''<'' \<notin> set (escapeHtml s)\<close>
  by (simp add: escapeHtml_concat html_entity_no_lt)

lemma type_heading_no_lt: \<open>t \<in> set VALID_ALERT_TYPES \<Longrightarrow> CHR ''<'' \<notin> set (type_heading P t)\<close>
  unfolding VALID_ALERT_TYPES_def by (auto; code_simp)

lemma clear_doc_head: "name \<in> optional_labels \<Longrightarrow> clear (label_div name) doc_head"
  unfolding optional_labels_def clear_def label_div_def doc_head_def tpl_head_def by auto

lemma clear_doc_tail: "name \<in> optional_labels \<Longrightarrow> clear (label_div name) doc_tail"
  unfolding optional_labels_def clear_def label_div_def doc_tail_def tpl_tail_def by auto

lemma clear_fixed:
  assumes "name \<in> optional_labels"
  shows "clear (label_div name) tpl_application" "clear (label_div name) tpl_date"
    "clear (label_div name) tpl_url" "clear (label_div name) tpl_hostname"
    "clear (label_div name) tpl_fields_end" "clear (label_div name) tpl_gap"
    "clear (label_div name) tpl_block_end" "clear (label_div name) tpl_metadata_end"
    "clear (label_div name) tpl_userAgent"
  using assms
  unfolding optional_labels_def clear_def label_div_def tpl_application_def tpl_date_def
    tpl_url_def tpl_hostname_def tpl_fields_end_def tpl_gap_def tpl_block_end_def
    tpl_metadata_end_def tpl_userAgent_def
  by auto

lemma clear_other:
  \<open>clear (label_div ''App Version'') tpl_stack\<close> \<open>clear (label_div ''App Version'') tpl_metadata\<close>
  \<open>clear (label_div ''Stack Trace'') tpl_appVersion\<close> \<open>clear (label_div ''Stack Trace'') tpl_metadata\<close>
  \<open>clear (label_div ''Additional Details'') tpl_appVersion\<close> \<open>clear (label_div ''Additional Details'') tpl_stack\<close>
  unfolding clear_def label_div_def tpl_stack_def tpl_metadata_def tpl_appVersion_def
  by simp_all


lemma template_Cons_Inr:
  "template (x # ps) = Inr r \<longleftrightarrow> (\<exists>s r'. x = Inr s \<and> template ps = Inr r' \<and> r = s @ r')"
  by (cases x) (auto split: sum.splits)

lemma escapeHtml_js_Inr: "escapeHtml_js v = Inr e \<longleftrightarrow> (\<exists>s. v = Str s \<and> e = escapeHtml s)"
  by (cases v) (auto simp: escapeHtml_js_def)

lemma optional_field_Inr:
  "optional_field v opening closing = Inr b \<longleftrightarrow>
     (if truthy v then \<exists>s. v = Str s \<and> b = opening @ escapeHtml s @ closing else b = [])"
  by (cases v) (auto simp: optional_field_def escapeHtml_js_def)

lemma space_at_head:
  \<open>space_at white_space (CHR 0x0A # r) = 1\<close>
  \<open>space_at white_space (CHR ''<'' # r) = 0\<close>
  \<open>space_at (map rev white_space) (CHR 0x0A # r) = 1\<close>
  \<open>space_at (map rev white_space) (CHR '' '' # r) = 1\<close>
  \<open>space_at (map rev white_space) (CHR ''>'' # r) = 0\<close>
  by (simp_all add: space_at_def white_space_def)

lemma skip_head:
  \<open>skip white_space (CHR 0x0A # r) = skip white_space r\<close>
  \<open>skip white_space (CHR ''<'' # r) = CHR ''<'' # r\<close>
  \<open>skip (map rev white_space) (CHR 0x0A # r) = skip (map rev white_space) r\<close>
  \<open>skip (map rev white_space) (CHR '' '' # r) = skip (map rev white_space) r\<close>
  \<open>skip (map rev white_space) (CHR ''>'' # r) = CHR ''>'' # r\<close>
  by (subst skip.simps, simp add: space_at_head)+

lemma trim_document: "trim (tpl_head @ x @ tpl_tail) = doc_head @ x @ doc_tail"
proof -
  obtain d where d: \<open>doc_head = CHR ''<'' # d\<close>
    by (simp add: doc_head_def tpl_head_def)
  have h: "tpl_head = CHR 0x0A # doc_head"
    by (simp add: doc_head_def tpl_head_def)
  obtain e where e: \<open>doc_tail = e @ [CHR ''>'']\<close>
    and t: \<open>tpl_tail = e @ CHR ''>'' # [CHR 0x0A, CHR '' '', CHR '' '']\<close>
    by (simp add: doc_tail_def tpl_tail_def)
  have \<open>rev (tpl_head @ x @ tpl_tail)
        = CHR '' '' # CHR '' '' # CHR 0x0A # CHR ''>'' # rev (tpl_head @ x @ e)\<close>
    using t by simp
  then have \<open>trimEnd (tpl_head @ x @ tpl_tail) = rev (CHR ''>'' # rev (tpl_head @ x @ e))\<close>
    by (simp only: trimEnd_def skip_head)
  also have \<open>\<dots> = CHR 0x0A # CHR ''<'' # d @ x @ doc_tail\<close>
    using e h d by simp
  finally have \<open>trim (tpl_head @ x @ tpl_tail) = trimStart (CHR 0x0A # CHR ''<'' # d @ x @ doc_tail)\<close>
    by (simp add: trim_def)
  also have \<open>\<dots> = CHR ''<'' # d @ x @ doc_tail\<close>
    by (simp only: trimStart_def skip_head)
  finally show ?thesis using d by simp
qed

lemma document_front_clear:
  assumes "name \<in> optional_labels"
    and \<open>CHR ''<'' \<notin> set heading\<close> and \<open>CHR ''<'' \<notin> set ts\<close>
  shows "clear (label_div name) (document_front heading n ts u h)"
  unfolding document_front_def
  by (intro clear_append clear_fixed clear_label_free escapeHtml_no_lt assms)

lemma template_document:
  assumes "template
            (Inr tpl_head # Inr heading #
             Inr tpl_application # escapeHtml_js (Str name) #
             Inr tpl_date # Inr ts #
             Inr tpl_url # escapeHtml_js url #
             Inr tpl_hostname # escapeHtml_js hostname #
             Inr tpl_fields_end # rest) = Inr r"
  obtains u h r' where "url = Str u" "hostname = Str h" "template rest = Inr r'"
    "r = tpl_head @ document_front heading name ts u h @ r'"
  using assms
  by (auto simp add: template_Cons_Inr escapeHtml_js_Inr document_front_def
      simp del: template.simps(2,3))

lemma template_metadata:
  "(if c then template [Inr x, Inr y, Inr z] else Inr []) = Inr s \<longleftrightarrow>
   s = (if c then x @ y @ z else [])"
  by auto

lemma format_Inr:
  assumes "formatSecurityAlertEmail P a = Inr html"
  obtains ts u h bV bU bS where
    "toISOString P (timestamp a) = Some ts"
    "optional_field (appVersion a) tpl_appVersion tpl_block_end = Inr bV"
    "optional_field (userAgent a) tpl_userAgent tpl_block_end = Inr bU"
    "optional_field (stack a) tpl_stack tpl_block_end = Inr bS"
    "html = doc_head @ (document_front (type_heading P (alert_type a)) (appName a) ts u h
        @ bV @ (tpl_gap @ bU @ tpl_gap) @ bS @ tpl_gap
        @ (if truthy (metadata a)
           then tpl_metadata @ escapeHtml (stringify P (metadata a)) @ tpl_metadata_end else [])) @ doc_tail"
proof -
  from assms obtain ts where ts: "toISOString P (timestamp a) = Some ts"
    by (auto simp: formatSecurityAlertEmail_def split: option.splits)
  define rest where "rest =
            [optional_field (appVersion a) tpl_appVersion tpl_block_end,
             Inr tpl_gap,
             optional_field (userAgent a) tpl_userAgent tpl_block_end,
             Inr tpl_gap,
             optional_field (stack a) tpl_stack tpl_block_end,
             Inr tpl_gap,
             (if truthy (metadata a)
              then template [Inr tpl_metadata,
                             Inr (escapeHtml (stringify P (metadata a))),
                             Inr tpl_metadata_end]
              else Inr []),
             Inr tpl_tail]"
  define ps where "ps =
            [Inr tpl_head, Inr (type_heading P (alert_type a)),
             Inr tpl_application, escapeHtml_js (Str (appName a)),
             Inr tpl_date, Inr ts,
             Inr tpl_url, escapeHtml_js (alert_url a),
             Inr tpl_hostname, escapeHtml_js (alert_hostname a),
             Inr tpl_fields_end,
             optional_field (appVersion a) tpl_appVersion tpl_block_end,
             Inr tpl_gap,
             optional_field (userAgent a) tpl_userAgent tpl_block_end,
             Inr tpl_gap,
             optional_field (stack a) tpl_stack tpl_block_end,
             Inr tpl_gap,
             (if truthy (metadata a)
              then template [Inr tpl_metadata,
                             Inr (escapeHtml (stringify P (metadata a))),
                             Inr tpl_metadata_end]
              else Inr []),
             Inr tpl_tail]"
  from assms ts have "map_sum id trim (template ps) = Inr html"
    by (simp add: formatSecurityAlertEmail_def ps_def)
  then obtain r where r: "html = trim r" and tr: "template ps = Inr r"
    by (cases "template ps") auto
  have "ps = Inr tpl_head # Inr (type_heading P (alert_type a)) #
             Inr tpl_application # escapeHtml_js (Str (appName a)) #
             Inr tpl_date # Inr ts #
             Inr tpl_url # escapeHtml_js (alert_url a) #
             Inr tpl_hostname # escapeHtml_js (alert_hostname a) #
             Inr tpl_fields_end # rest"
    by (simp add: ps_def rest_def)
  with tr have "template
            (Inr tpl_head # Inr (type_heading P (alert_type a)) #
             Inr tpl_application # escapeHtml_js (Str (appName a)) #
             Inr tpl_date # Inr ts #
             Inr tpl_url # escapeHtml_js (alert_url a) #
             Inr tpl_hostname # escapeHtml_js (alert_hostname a) #
             Inr tpl_fields_end # rest) = Inr r"
    by simp
  then obtain u h r' where front: "template rest = Inr r'"
    "r = tpl_head @ document_front (type_heading P (alert_type a)) (appName a) ts u h @ r'"
    by (rule template_document)
  from front(1) obtain bV bU bS where
    parts: "optional_field (appVersion a) tpl_appVersion tpl_block_end = Inr bV"
    "optional_field (userAgent a) tpl_userAgent tpl_block_end = Inr bU"
    "optional_field (stack a) tpl_stack tpl_block_end = Inr bS"
    and "r' = bV @ (tpl_gap @ bU @ tpl_gap) @ bS @ tpl_gap
        @ (if truthy (metadata a)
           then tpl_metadata @ escapeHtml (stringify P (metadata a)) @ tpl_metadata_end else []) @ tpl_tail"
    unfolding rest_def
    by (auto simp add: template_Cons_Inr template_metadata simp del: template.simps(2,3))
  with r ts front(2) that [OF ts parts] show thesis
    using trim_document
      [of "document_front (type_heading P (alert_type a)) (appName a) ts u h
        @ bV @ (tpl_gap @ bU @ tpl_gap) @ bS @ tpl_gap
        @ (if truthy (metadata a)
           then tpl_metadata @ escapeHtml (stringify P (metadata a)) @ tpl_metadata_end else [])"]
    by simp
qed

lemma format_index_Inr:
  assumes "formatSecurityAlertEmail_index P a = Inr html"
  obtains ts u h bV bS where
    "toISOString P (timestamp a) = Some ts"
    "optional_field (appVersion a) tpl_appVersion tpl_block_end = Inr bV"
    "optional_field (stack a) tpl_stack tpl_block_end = Inr bS"
    "html = doc_head @ (document_front (type_heading P (alert_type a)) (appName a) ts u h
        @ bV @ tpl_gap @ bS @ tpl_gap
        @ (if truthy (metadata a)
           then tpl_metadata @ escapeHtml (stringify P (metadata a)) @ tpl_metadata_end else [])) @ doc_tail"
proof -
  from assms obtain ts where ts: "toISOString P (timestamp a) = Some ts"
    by (auto simp: formatSecurityAlertEmail_index_def split: option.splits)
  define rest where "rest =
            [optional_field (appVersion a) tpl_appVersion tpl_block_end,
             Inr tpl_gap,
             optional_field (stack a) tpl_stack tpl_block_end,
             Inr tpl_gap,
             (if truthy (metadata a)
              then template [Inr tpl_metadata,
                             Inr (escapeHtml (stringify P (metadata a))),
                             Inr tpl_metadata_end]
              else Inr []),
             Inr tpl_tail]"
  define ps where "ps =
            [Inr tpl_head, Inr (type_heading P (alert_type a)),
             Inr tpl_application, escapeHtml_js (Str (appName a)),
             Inr tpl_date, Inr ts,
             Inr tpl_url, escapeHtml_js (alert_url a),
             Inr tpl_hostname, escapeHtml_js (alert_hostname a),
             Inr tpl_fields_end,
             optional_field (appVersion a) tpl_appVersion tpl_block_end,
             Inr tpl_gap,
             optional_field (stack a) tpl_stack tpl_block_end,
             Inr tpl_gap,
             (if truthy (metadata a)
              then template [Inr tpl_metadata,
                             Inr (escapeHtml (stringify P (metadata a))),
                             Inr tpl_metadata_end]
              else Inr []),
             Inr tpl_tail]"
  from assms ts have "map_sum id trim (template ps) = Inr html"
    by (simp add: formatSecurityAlertEmail_index_def ps_def)
  then obtain r where r: "html = trim r" and tr: "template ps = Inr r"
    by (cases "template ps") auto
  have "ps = Inr tpl_head # Inr (type_heading P (alert_type a)) #
             Inr tpl_application # escapeHtml_js (Str (appName a)) #
             Inr tpl_date # Inr ts #
             Inr tpl_url # escapeHtml_js (alert_url a) #
             Inr tpl_hostname # escapeHtml_js (alert_hostname a) #
             Inr tpl_fields_end # rest"
    by (simp add: ps_def rest_def)
  with tr have "template
            (Inr tpl_head # Inr (type_heading P (alert_type a)) #
             Inr tpl_application # escapeHtml_js (Str (appName a)) #
             Inr tpl_date # Inr ts #
             Inr tpl_url # escapeHtml_js (alert_url a) #
             Inr tpl_hostname # escapeHtml_js (alert_hostname a) #
             Inr tpl_fields_end # rest) = Inr r"
    by simp
  then obtain u h r' where front: "template rest = Inr r'"
    "r = tpl_head @ document_front (type_heading P (alert_type a)) (appName a) ts u h @ r'"
    by (rule template_document)
  from front(1) obtain bV bS where
    parts: "optional_field (appVersion a) tpl_appVersion tpl_block_end = Inr bV"
    "optional_field (stack a) tpl_stack tpl_block_end = Inr bS"
    and "r' = bV @ tpl_gap @ bS @ tpl_gap
        @ (if truthy (metadata a)
           then tpl_metadata @ escapeHtml (stringify P (metadata a)) @ tpl_metadata_end else []) @ tpl_tail"
    unfolding rest_def
    by (auto simp add: template_Cons_Inr template_metadata simp del: template.simps(2,3))
  with r ts front(2) that [OF ts parts] show thesis
    using trim_document
      [of "document_front (type_heading P (alert_type a)) (appName a) ts u h
        @ bV @ tpl_gap @ bS @ tpl_gap
        @ (if truthy (metadata a)
           then tpl_metadata @ escapeHtml (stringify P (metadata a)) @ tpl_metadata_end else [])"]
    by simp
qed

lemma str_includes_middle: "str_includes b n \<Longrightarrow> str_includes (x @ b @ y) n"
  by (simp add: str_includes_sublist sublist_append)

lemma field_absent: "optional_field v opening closing = Inr b \<Longrightarrow> \<not> truthy v \<Longrightarrow> b = []"
  by (simp add: optional_field_Inr)

lemma field_present:
  "optional_field v opening closing = Inr b \<Longrightarrow> truthy v \<Longrightarrow>
     \<exists>s. v = Str s \<and> b = opening @ escapeHtml s @ closing"
  by (simp add: optional_field_Inr)

lemma field_clear:
  assumes "optional_field v opening tpl_block_end = Inr b"
    and "name \<in> optional_labels" and "clear (label_div name) opening"
  shows "clear (label_div name) b"
proof (cases "truthy v")
  case True
  with assms(1) obtain s where "b = opening @ escapeHtml s @ tpl_block_end"
    using field_present by blast
  then show ?thesis
    using assms(2,3) by (simp add: clear_append clear_fixed clear_label_free escapeHtml_no_lt)
next
  case False
  with assms(1) show ?thesis by (simp add: optional_field_Inr clear_Nil)
qed

lemma metadata_clear:
  assumes "name \<in> optional_labels" and "truthy m \<Longrightarrow> clear (label_div name) tpl_metadata"
  shows "clear (label_div name)
           (if truthy m then tpl_metadata @ escapeHtml x @ tpl_metadata_end else [])"
  using assms by (simp add: clear_append clear_fixed clear_label_free escapeHtml_no_lt clear_Nil)

lemma document_clear:
  assumes n: "name \<in> optional_labels"
    and "clear (label_div name) front"
    and "clear (label_div name) bV" "clear (label_div name) middle"
      "clear (label_div name) bS" "clear (label_div name) bM"
  shows "\<not> str_includes
     (doc_head @ (front @ bV @ middle @ bS @ tpl_gap @ bM) @ doc_tail) (label_div name)"
proof -
  have "clear (label_div name) (doc_head @ (front @ bV @ middle @ bS @ tpl_gap @ bM) @ doc_tail)"
    by (intro clear_append clear_doc_head clear_doc_tail clear_fixed assms)
  then show ?thesis
    by (rule clear_not_includes) (simp add: label_div_def)
qed

lemma optional_labels_mem:
  \<open>''App Version'' \<in> optional_labels\<close> \<open>''Stack Trace'' \<in> optional_labels\<close>
  \<open>''Additional Details'' \<in> optional_labels\<close>
  by (simp_all add: optional_labels_def)

lemma label_in_opening:
  \<open>str_includes tpl_appVersion (label_div ''App Version'')\<close>
  \<open>str_includes tpl_stack (label_div ''Stack Trace'')\<close>
  \<open>str_includes tpl_metadata (label_div ''Additional Details'')\<close>
  by (simp_all add: tpl_appVersion_def tpl_stack_def tpl_metadata_def label_div_def)

lemma appVersion_value:
  \<open>str_includes (tpl_appVersion @ x @ tpl_block_end) (value_div x)\<close>
proof -
  obtain p where p: \<open>tpl_appVersion = p @ ''<div class="value">''\<close>
    by (simp add: tpl_appVersion_def)
  obtain q where q: \<open>tpl_block_end = ''</div>'' @ q\<close>
    by (simp add: tpl_block_end_def)
  have \<open>tpl_appVersion @ x @ tpl_block_end = p @ value_div x @ q\<close>
    unfolding p q by (simp add: value_div_def)
  then show ?thesis
    by (simp add: str_includes_sublist)
qed

lemma document_blocks:
  assumes html: "html = doc_head @ (front @ bV @ middle @ bS @ tpl_gap
        @ (if truthy vM then tpl_metadata @ escapeHtml x @ tpl_metadata_end else [])) @ doc_tail"
    and front: "\<And>name. name \<in> optional_labels \<Longrightarrow> clear (label_div name) front"
    and middle: "\<And>name. name \<in> optional_labels \<Longrightarrow> clear (label_div name) middle"
    and bV: "optional_field vV tpl_appVersion tpl_block_end = Inr bV"
    and bS: "optional_field vS tpl_stack tpl_block_end = Inr bS"
  shows appVersion_block: \<open>str_includes html (label_div ''App Version'') \<longleftrightarrow> truthy vV\<close>
    and stack_block: \<open>str_includes html (label_div ''Stack Trace'') \<longleftrightarrow> truthy vS\<close>
    and metadata_block: \<open>str_includes html (label_div ''Additional Details'') \<longleftrightarrow> truthy vM\<close>
    and appVersion_value_shown:
      \<open>truthy vV \<Longrightarrow> \<exists>s. vV = Str s \<and> str_includes html (value_div (escapeHtml s))\<close>
proof -
  note mem = optional_labels_mem
  show \<open>str_includes html (label_div ''App Version'') \<longleftrightarrow> truthy vV\<close>
  proof (cases "truthy vV")
    case True
    then obtain s where "bV = tpl_appVersion @ escapeHtml s @ tpl_block_end"
      using bV field_present by blast
    then have \<open>str_includes bV (label_div ''App Version'')\<close>
      using str_includes_middle [OF label_in_opening(1), of "[]"] by simp
    then have \<open>str_includes html (label_div ''App Version'')\<close>
      unfolding html
      by (simp add: str_includes_sublist sublist_append)
    with True show ?thesis by simp
  next
    case False
    then have "bV = []" using bV field_absent by blast
    then have \<open>\<not> str_includes html (label_div ''App Version'')\<close>
      unfolding html
      by (intro document_clear mem front middle field_clear [OF bS] metadata_clear clear_other)
         (simp add: clear_Nil)
    with False show ?thesis by simp
  qed
  show \<open>str_includes html (label_div ''Stack Trace'') \<longleftrightarrow> truthy vS\<close>
  proof (cases "truthy vS")
    case True
    then obtain s where "bS = tpl_stack @ escapeHtml s @ tpl_block_end"
      using bS field_present by blast
    then have \<open>str_includes bS (label_div ''Stack Trace'')\<close>
      using str_includes_middle [OF label_in_opening(2), of "[]"] by simp
    then have \<open>str_includes html (label_div ''Stack Trace'')\<close>
      unfolding html
      by (simp add: str_includes_sublist sublist_append)
    with True show ?thesis by simp
  next
    case False
    then have "bS = []" using bS field_absent by blast
    then have \<open>\<not> str_includes html (label_div ''Stack Trace'')\<close>
      unfolding html
      by (intro document_clear mem front middle field_clear [OF bV] metadata_clear clear_other)
         (simp add: clear_Nil)
    with False show ?thesis by simp
  qed
  show \<open>str_includes html (label_div ''Additional Details'') \<longleftrightarrow> truthy vM\<close>
  proof (cases "truthy vM")
    case True
    have \<open>str_includes html (label_div ''Additional Details'')\<close>
      unfolding html using True label_in_opening(3)
      by (simp add: str_includes_sublist sublist_append)
    with True show ?thesis by simp
  next
    case False
    then have \<open>\<not> str_includes html (label_div ''Additional Details'')\<close>
      unfolding html
      by (intro document_clear mem front middle field_clear [OF bV] field_clear [OF bS]
            metadata_clear clear_other) simp_all
    with False show ?thesis by simp
  qed
  show \<open>\<exists>s. vV = Str s \<and> str_includes html (value_div (escapeHtml s))\<close> if "truthy vV"
  proof -
    from that obtain s where s: "vV = Str s" "bV = tpl_appVersion @ escapeHtml s @ tpl_block_end"
      using bV field_present by blast
    then have \<open>str_includes bV (value_div (escapeHtml s))\<close>
      by (simp add: appVersion_value)
    then have \<open>str_includes html (value_div (escapeHtml s))\<close>
      unfolding html
      by (simp add: str_includes_sublist sublist_append)
    with s show ?thesis by blast
  qed
qed

lemma format_blocks:
  assumes render: "render = formatSecurityAlertEmail \<or> render = formatSecurityAlertEmail_index"
    and f: "render P a = Inr html"
    and ty: "alert_type a \<in> set VALID_ALERT_TYPES"
    and iso: "iso_plain P"
  shows \<open>str_includes html (label_div ''App Version'') \<longleftrightarrow> truthy (appVersion a)\<close>
    and \<open>str_includes html (label_div ''Stack Trace'') \<longleftrightarrow> truthy (stack a)\<close>
    and \<open>str_includes html (label_div ''Additional Details'') \<longleftrightarrow> truthy (metadata a)\<close>
    and \<open>truthy (appVersion a) \<Longrightarrow>
          \<exists>s. appVersion a = Str s \<and> str_includes html (value_div (escapeHtml s))\<close>
proof -
  have heading: \<open>CHR ''<'' \<notin> set (type_heading P (alert_type a))\<close>
    using ty by (rule type_heading_no_lt)
  have "\<exists>front middle bV bS.
      html = doc_head @ (front @ bV @ middle @ bS @ tpl_gap
        @ (if truthy (metadata a)
           then tpl_metadata @ escapeHtml (stringify P (metadata a)) @ tpl_metadata_end else [])) @ doc_tail
      \<and> (\<forall>name \<in> optional_labels. clear (label_div name) front)
      \<and> (\<forall>name \<in> optional_labels. clear (label_div name) middle)
      \<and> optional_field (appVersion a) tpl_appVersion tpl_block_end = Inr bV
      \<and> optional_field (stack a) tpl_stack tpl_block_end = Inr bS"
    using render
  proof
    assume "render = formatSecurityAlertEmail"
    with f have "formatSecurityAlertEmail P a = Inr html" by simp
    then obtain ts u h bV bU bS where
      ts: "toISOString P (timestamp a) = Some ts"
      and bV: "optional_field (appVersion a) tpl_appVersion tpl_block_end = Inr bV"
      and bU: "optional_field (userAgent a) tpl_userAgent tpl_block_end = Inr bU"
      and bS: "optional_field (stack a) tpl_stack tpl_block_end = Inr bS"
      and html: "html = doc_head @ (document_front (type_heading P (alert_type a)) (appName a) ts u h
        @ bV @ (tpl_gap @ bU @ tpl_gap) @ bS @ tpl_gap
        @ (if truthy (metadata a)
           then tpl_metadata @ escapeHtml (stringify P (metadata a)) @ tpl_metadata_end else [])) @ doc_tail"
      by (rule format_Inr)
    have tsp: \<open>CHR ''<'' \<notin> set ts\<close>
      using iso ts by (auto simp: iso_plain_def)
    have "clear (label_div name) (tpl_gap @ bU @ tpl_gap)" if "name \<in> optional_labels" for name
      using that field_clear [OF bU that] by (simp add: clear_append clear_fixed)
    then show ?thesis
      using html bV bS document_front_clear [OF _ heading tsp] by blast
  next
    assume "render = formatSecurityAlertEmail_index"
    with f have "formatSecurityAlertEmail_index P a = Inr html" by simp
    then obtain ts u h bV bS where
      ts: "toISOString P (timestamp a) = Some ts"
      and bV: "optional_field (appVersion a) tpl_appVersion tpl_block_end = Inr bV"
      and bS: "optional_field (stack a) tpl_stack tpl_block_end = Inr bS"
      and html: "html = doc_head @ (document_front (type_heading P (alert_type a)) (appName a) ts u h
        @ bV @ tpl_gap @ bS @ tpl_gap
        @ (if truthy (metadata a)
           then tpl_metadata @ escapeHtml (stringify P (metadata a)) @ tpl_metadata_end else [])) @ doc_tail"
      by (rule format_index_Inr)
    have tsp: \<open>CHR ''<'' \<notin> set ts\<close>
      using iso ts by (auto simp: iso_plain_def)
    show ?thesis
      using html bV bS document_front_clear [OF _ heading tsp] clear_fixed(6) by blast
  qed
  then obtain front middle bV bS where
    html: "html = doc_head @ (front @ bV @ middle @ bS @ tpl_gap
        @ (if truthy (metadata a)
           then tpl_metadata @ escapeHtml (stringify P (metadata a)) @ tpl_metadata_end else [])) @ doc_tail"
    and front: "\<And>name. name \<in> optional_labels \<Longrightarrow> clear (label_div name) front"
    and middle: "\<And>name. name \<in> optional_labels \<Longrightarrow> clear (label_div name) middle"
    and bV: "optional_field (appVersion a) tpl_appVersion tpl_block_end = Inr bV"
    and bS: "optional_field (stack a) tpl_stack tpl_block_end = Inr bS"
    by blast
  note blocks = document_blocks [OF html front middle bV bS]
  show \<open>str_includes html (label_div ''App Version'') \<longleftrightarrow> truthy (appVersion a)\<close>
    by (rule blocks(1))
  show \<open>str_includes html (label_div ''Stack Trace'') \<longleftrightarrow> truthy (stack a)\<close>
    by (rule blocks(2))
  show \<open>str_includes html (label_div ''Additional Details'') \<longleftrightarrow> truthy (metadata a)\<close>
    by (rule blocks(3))
  show \<open>\<exists>s. appVersion a = Str s \<and> str_includes html (value_div (escapeHtml s))\<close>
    if "truthy (appVersion a)"
    using blocks(4) that by blast
qed

lemma formatSecurityAlertEmail_returns:
  assumes "typed_alert a" and "toISOString P (timestamp a) = Some ts"
  shows "\<exists>html. formatSecurityAlertEmail P a = Inr html"
    and "\<exists>html. formatSecurityAlertEmail_index P a = Inr html"
proof -
  from assms(1) obtain u h where uh: "alert_url a = Str u" "alert_hostname a = Str h"
    by (auto simp: typed_alert_def is_string_def split: jsval.splits)
  have opt: "optional_string v \<Longrightarrow> \<exists>b. optional_field v x y = Inr b" for v x y
    by (cases v) (auto simp: optional_string_def is_string_def optional_field_def escapeHtml_js_def)
  from assms(1) obtain bV bU bS where b:
    "optional_field (appVersion a) tpl_appVersion tpl_block_end = Inr bV"
    "optional_field (userAgent a) tpl_userAgent tpl_block_end = Inr bU"
    "optional_field (stack a) tpl_stack tpl_block_end = Inr bS"
    unfolding typed_alert_def using opt by metis
  then show "\<exists>html. formatSecurityAlertEmail P a = Inr html"
    using assms(2) uh by (simp add: formatSecurityAlertEmail_def escapeHtml_js_def)
  from b show "\<exists>html. formatSecurityAlertEmail_index P a = Inr html"
    using assms(2) uh by (simp add: formatSecurityAlertEmail_index_def escapeHtml_js_def)
qed

text \<open>
  C8. For a validated alert (its type is one of the four), the rendered document has
  the label element of App Version, of Stack Trace and of Additional Details exactly
  when the field concerned is truthy. An alert without \<^verbatim>\<open>appVersion\<close> gives a document
  without the label App Version; one with \<^verbatim>\<open>appVersion\<close> \<^verbatim>\<open>1.2.3\<close> gives a document
  with that label and with the value element of the escaped value. The renderer returns
  a document for every alert of the declared type whose time stamp renders. This holds
  of the renderer of \<^verbatim>\<open>src/email.ts\<close> and of the older copy in \<^verbatim>\<open>src/index.ts\<close>.
  (A label is the element \<^verbatim>\<open><div class="label">...</div>\<close> of the template; the
  words alone can also stand in a value that the sender chose.)
\<close>

theorem formatSecurityAlertEmail_optional_fields:
  assumes "render = formatSecurityAlertEmail \<or> render = formatSecurityAlertEmail_index"
    and "alert_type a \<in> set VALID_ALERT_TYPES" and "iso_plain P"
  shows \<open>(\<forall>html. render P a = Inr html \<longrightarrow>
            (str_includes html (label_div ''App Version'') \<longleftrightarrow> truthy (appVersion a))
          \<and> (str_includes html (label_div ''Stack Trace'') \<longleftrightarrow> truthy (stack a))
          \<and> (str_includes html (label_div ''Additional Details'') \<longleftrightarrow> truthy (metadata a))
          \<and> (appVersion a = Undefined \<longrightarrow> \<not> str_includes html (label_div ''App Version''))
          \<and> (appVersion a = Str ''1.2.3'' \<longrightarrow>
                str_includes html (label_div ''App Version'')
              \<and> str_includes html (value_div ''1.2.3'')))
        \<and> (typed_alert a \<and> toISOString P (timestamp a) \<noteq> None \<longrightarrow>
              (\<exists>html. render P a = Inr html))\<close>
proof (intro conjI allI impI)
  fix html
  assume f: "render P a = Inr html"
  note blocks = format_blocks [OF assms(1) f assms(2,3)]
  show \<open>str_includes html (label_div ''App Version'') \<longleftrightarrow> truthy (appVersion a)\<close>
    by (rule blocks(1))
  show \<open>str_includes html (label_div ''Stack Trace'') \<longleftrightarrow> truthy (stack a)\<close>
    by (rule blocks(2))
  show \<open>str_includes html (label_div ''Additional Details'') \<longleftrightarrow> truthy (metadata a)\<close>
    by (rule blocks(3))
  show \<open>\<not> str_includes html (label_div ''App Version'')\<close> if "appVersion a = Undefined"
    using blocks(1) that by simp
  show \<open>str_includes html (label_div ''App Version'')\<close> if \<open>appVersion a = Str ''1.2.3''\<close>
    using blocks(1) that by simp
  show \<open>str_includes html (value_div ''1.2.3'')\<close> if v: \<open>appVersion a = Str ''1.2.3''\<close>
  proof -
    have "truthy (appVersion a)" using v by simp
    from blocks(4) [OF this] v
    have \<open>str_includes html (value_div (escapeHtml ''1.2.3''))\<close> by simp
    moreover have \<open>escapeHtml ''1.2.3'' = ''1.2.3''\<close>
      by (rule escapeHtml_plain) (simp add: html_special_def)
    ultimately show ?thesis by simp
  qed
next
  assume "typed_alert a \<and> toISOString P (timestamp a) \<noteq> None"
  then show "\<exists>html. render P a = Inr html"
    using formatSecurityAlertEmail_returns assms(1) by blast
qed

theorem formatSecurityAlertEmail_optional_fields_witness:
  \<open>alert_type (sample_alert Undefined) \<in> set VALID_ALERT_TYPES
   \<and> iso_plain (sample_platform Rejected)
   \<and> (\<exists>html. formatSecurityAlertEmail (sample_platform Rejected) (sample_alert Undefined) = Inr html
         \<and> \<not> str_includes html (label_div ''App Version''))
   \<and> (\<exists>html. formatSecurityAlertEmail (sample_platform Rejected) (sample_alert (Str ''1.2.3'')) = Inr html
         \<and> str_includes html (label_div ''App Version'')
         \<and> str_includes html (value_div ''1.2.3''))
   \<and> (\<exists>html. formatSecurityAlertEmail_index (sample_platform Rejected) (sample_alert (Str ''1.2.3'')) = Inr html
         \<and> str_includes html (label_div ''App Version'')
         \<and> \<not> str_includes html (label_div ''Stack Trace''))\<close>
proof -
  let ?P = "sample_platform Rejected"
  have ty: "alert_type (sample_alert v) \<in> set VALID_ALERT_TYPES" for v
    by (simp add: sample_alert_def VALID_ALERT_TYPES_def)
  have iso: "iso_plain ?P"
    by (simp add: iso_plain_def sample_platform_def)
  have typed: "typed_alert (sample_alert Undefined)" \<open>typed_alert (sample_alert (Str ''1.2.3''))\<close>
    by (simp_all add: typed_alert_def sample_alert_def is_string_def optional_string_def)
  have time: "toISOString ?P (timestamp (sample_alert v)) \<noteq> None" for v
    by (simp add: sample_platform_def sample_alert_def)
  have av: "appVersion (sample_alert v) = v" "stack (sample_alert v) = Undefined" for v
    by (simp_all add: sample_alert_def)
  note absent = formatSecurityAlertEmail_optional_fields
    [where render = formatSecurityAlertEmail, OF _ ty iso, of Undefined]
  note present = formatSecurityAlertEmail_optional_fields
    [where render = formatSecurityAlertEmail, OF _ ty iso, of \<open>Str ''1.2.3''\<close>]
  note older = formatSecurityAlertEmail_optional_fields
    [where render = formatSecurityAlertEmail_index, OF _ ty iso, of \<open>Str ''1.2.3''\<close>]
  from absent typed(1) time obtain h1 where
    h1: "formatSecurityAlertEmail ?P (sample_alert Undefined) = Inr h1" by blast
  from present typed(2) time obtain h2 where
    h2: \<open>formatSecurityAlertEmail ?P (sample_alert (Str ''1.2.3'')) = Inr h2\<close> by blast
  from older typed(2) time obtain h3 where
    h3: \<open>formatSecurityAlertEmail_index ?P (sample_alert (Str ''1.2.3'')) = Inr h3\<close> by blast
  have \<open>\<not> str_includes h1 (label_div ''App Version'')\<close>
    using absent h1 av by blast
  moreover have \<open>str_includes h2 (label_div ''App Version'') \<and> str_includes h2 (value_div ''1.2.3'')\<close>
    using present h2 av by blast
  moreover have \<open>str_includes h3 (label_div ''App Version'')
      \<and> \<not> str_includes h3 (label_div ''Stack Trace'')\<close>
    using older h3 av by (metis truthy.simps(1))
  ultimately show ?thesis using ty iso h1 h2 h3 by blast
qed

section \<open>Validation\<close>

lemma then_do_simps [simp]: "then_do (Inl e) k = Inl e" "then_do (Inr v) k = k v"
  by (simp_all add: then_do_def)

lemma then_handle_simps [simp]: "then_handle (Inl e) k = (Inl e, [])" "then_handle (Inr v) k = k v"
  by (simp_all add: then_handle_def)

lemma get_prop_field_of:
  "v \<noteq> Null \<Longrightarrow> v \<noteq> Undefined \<Longrightarrow> get_prop v k = Inr (field_of v k)"
  by (cases v) (simp_all add: field_of_def)

lemma get_prop_null: "get_prop Null k = Inl TypeError" "get_prop Undefined k = Inl TypeError"
  by simp_all

lemma validate_null: "validateAlertPayload Null = Inl TypeError"
  by (simp add: validateAlertPayload_def)

lemma type_message:
  \<open>''type must be one of: '' @ join '', '' VALID_ALERT_TYPES
   = ''type must be one of: unauthorized_fetch, unauthorized_xhr, unauthorized_websocket, csp_violation''\<close>
  by (simp add: VALID_ALERT_TYPES_def)

lemma validate_object:
  assumes "payload \<noteq> Null" "payload \<noteq> Undefined"
  shows "validateAlertPayload payload =
     Inr (if \<not> isNonEmptyString (field_of payload ''appName'')
          then Some ''appName must be a non-empty string''
          else if \<not> isNonEmptyString (field_of payload ''type'')
                  \<or> \<not> array_includes VALID_ALERT_TYPES (field_of payload ''type'')
          then Some (''type must be one of: '' @ join '', '' VALID_ALERT_TYPES)
          else if \<not> is_string (field_of payload ''url'') then Some ''url must be a string''
          else if \<not> is_string (field_of payload ''hostname'') then Some ''hostname must be a string''
          else if \<not> is_number (field_of payload ''timestamp'') then Some ''timestamp must be a number''
          else None)"
  using assms by (simp add: validateAlertPayload_def get_prop_field_of)

lemma validate_valid_iff:
  "validateAlertPayload payload = Inr None \<longleftrightarrow>
     payload \<noteq> Null \<and> payload \<noteq> Undefined \<and> fields_valid payload"
proof (cases "payload = Null \<or> payload = Undefined")
  case True
  then show ?thesis by (auto simp: validateAlertPayload_def)
next
  case False
  then show ?thesis by (auto simp: validate_object fields_valid_def)
qed

lemma validate_invalid:
  assumes "payload \<noteq> Null" "payload \<noteq> Undefined" "\<not> fields_valid payload"
  shows "\<exists>message \<in> validation_messages. validateAlertPayload payload = Inr (Some message)"
  using assms(3) unfolding validate_object [OF assms(1,2)] fields_valid_def validation_messages_def type_message
  by auto

lemma worker_post:
  assumes \<open>req_method request = ''POST''\<close> "\<not> too_large (req_content_length request)"
  shows "worker_fetch P env request =
    (case route P env request of
       (Inl error, mails) \<Rightarrow> (json_response 500 (error_body ''Internal error''), mails)
     | (Inr response, mails) \<Rightarrow> (response, mails))"
  using assms by (simp add: worker_fetch_def)

lemma route_alert:
  \<open>req_pathname request \<in> {''/alert'', ''/security-alert''} \<Longrightarrow>
   route P env request = handleSecurityAlert P env request\<close>
  by (auto simp: route_def)

lemma route_csp:
  \<open>req_pathname request = ''/csp-report'' \<Longrightarrow> route P env request = handleCspReport P env request\<close>
  by (simp add: route_def)

lemma invalid_alert_rejected:
  assumes \<open>req_method request = ''POST''\<close> "\<not> too_large (req_content_length request)"
    and \<open>req_pathname request \<in> {''/alert'', ''/security-alert''}\<close>
    and "req_json request = Some payload"
    and "payload \<noteq> Null" and "\<not> fields_valid payload"
    and "payload \<noteq> Undefined"
  shows "\<exists>message \<in> validation_messages.
           worker_fetch P env request = (json_response 400 (error_body message), [])"
proof -
  from validate_invalid [OF assms(5,7,6)] obtain message where
    m: "message \<in> validation_messages" "validateAlertPayload payload = Inr (Some message)"
    by blast
  have "handleSecurityAlert P env request = (Inr (json_response 400 (error_body message)), [])"
    using assms(4) m(2) by (simp add: handleSecurityAlert_def)
  then show ?thesis
    using m(1) assms(1,2,3) by (auto simp: worker_post route_alert)
qed

text \<open>
  C3. Claimed: for every alert payload that parses as JSON and has a required field that
  fails the validation, the handler answers 400 with a message for that field, and
  \<^verbatim>\<open>sendEmail\<close> is not called. The JSON text \<^verbatim>\<open>null\<close> parses, and has none of the
  required fields; reading \<^verbatim>\<open>payload.appName\<close> on it throws, the \<^verbatim>\<open>catch\<close> of
  \<^verbatim>\<open>fetch\<close> answers 500 with the message \<^verbatim>\<open>Internal error\<close>. (No mail is sent.) For
  every other payload the claim holds: \<open>invalid_alert_rejected\<close>.
\<close>

theorem null_payload_internal_error:
  \<open>validateAlertPayload Null = Inl TypeError
   \<and> worker_fetch P env (post_request ''/alert'' None None (Some Null))
       = (json_response 500 (error_body ''Internal error''), [])
   \<and> worker_fetch P env (post_request ''/security-alert'' None None (Some Null))
       = (json_response 500 (error_body ''Internal error''), [])
   \<and> status (json_response 500 (error_body ''Internal error'')) = 500
   \<and> body (json_response 500 (error_body ''Internal error''))
       = Some ''{"success":false,"error":"Internal error"}''\<close>
  by (simp add: validate_null worker_fetch_def post_request_def too_large_def route_def
      handleSecurityAlert_def json_response_def error_body_def)

theorem null_payload_internal_error_witness:
  \<open>worker_fetch (sample_platform Rejected) sample_env (post_request ''/alert'' None None (Some Null))
     = (json_response 500 (error_body ''Internal error''), [])
   \<and> status (fst (worker_fetch (sample_platform Rejected) sample_env
         (post_request ''/alert'' None None (Some Null)))) = 500\<close>
  using null_payload_internal_error [of "sample_platform Rejected" sample_env]
  by simp

section \<open>Unknown applications\<close>

lemma validated_appName:
  assumes "validateAlertPayload payload = Inr None"
  shows "\<exists>name. name \<noteq> [] \<and> get_prop payload ''appName'' = Inr (Str name)
           \<and> appName (alert_of_payload payload) = name"
proof -
  from assms have nn: "payload \<noteq> Null" "payload \<noteq> Undefined" and fv: "fields_valid payload"
    by (simp_all add: validate_valid_iff)
  from fv obtain name where "field_of payload ''appName'' = Str name" "name \<noteq> []"
    by (auto simp: fields_valid_def isNonEmptyString_def split: jsval.splits)
  then show ?thesis
    using nn by (simp add: get_prop_field_of alert_of_payload_def str_of_def)
qed

lemma sample_payload_valid: "validateAlertPayload (sample_payload name) = Inr (if name = [] then Some ''appName must be a non-empty string'' else None)"
  by (simp add: validate_object sample_payload_def field_of_def isNonEmptyString_def
      array_includes_def VALID_ALERT_TYPES_def is_string_def is_number_def)

lemma sample_payload_alert:
  \<open>alert_of_payload (sample_payload name) = (sample_alert Undefined)\<lparr>appName := name\<rparr>\<close>
  by (simp add: alert_of_payload_def sample_payload_def sample_alert_def field_of_def
      str_of_def num_of_def)

lemma sample_registry:
  \<open>getRecipientEmail P ''mail_box'' sample_env = Some ''mailbox@test.com''\<close>
  \<open>getRecipientEmail P ''ghost_app'' sample_env = None\<close>
  unfolding sample_env_def by code_simp+

text \<open>
  A POST that passes the size guard and whose application name has no entry in the
  registry: on \<^verbatim>\<open>/alert\<close> or \<^verbatim>\<open>/security-alert\<close>, with a payload that passes the
  validation, the response is 400 with the body
  \<^verbatim>\<open>{"success":false,"error":"Unknown app"}\<close> and \<^verbatim>\<open>sendEmail\<close> is not called; on
  \<^verbatim>\<open>/csp-report\<close>, with a report from which the handler gets an application name, the
  response is 204 without a body and \<^verbatim>\<open>sendEmail\<close> is not called.
\<close>

lemma unknown_app_answer:
  assumes \<open>req_method request = ''POST''\<close> and "\<not> too_large (req_content_length request)"
  shows
    \<open>(req_pathname request \<in> {''/alert'', ''/security-alert''}
       \<and> req_json request = Some payload
       \<and> validateAlertPayload payload = Inr None
       \<and> get_prop payload ''appName'' = Inr (Str name)
       \<and> no_recipient (getRecipientEmail P name env)
      \<longrightarrow> worker_fetch P env request = (json_response 400 (error_body ''Unknown app''), [])
        \<and> status (json_response 400 (error_body ''Unknown app'')) = 400
        \<and> body (json_response 400 (error_body ''Unknown app''))
            = Some ''{"success":false,"error":"Unknown app"}'')
     \<and> (req_pathname request = ''/csp-report''
         \<and> req_json request = Some report
         \<and> get_prop report ''csp-report'' = Inr cspData
         \<and> csp_appName P request cspData = Inr (Some app)
         \<and> no_recipient (getRecipientEmail P app env)
        \<longrightarrow> worker_fetch P env request = (no_content, [])
          \<and> status no_content = 204 \<and> body no_content = None)\<close>
proof (intro conjI impI)
  assume a: \<open>req_pathname request \<in> {''/alert'', ''/security-alert''}
       \<and> req_json request = Some payload
       \<and> validateAlertPayload payload = Inr None
       \<and> get_prop payload ''appName'' = Inr (Str name)
       \<and> no_recipient (getRecipientEmail P name env)\<close>
  then have "appName (alert_of_payload payload) = name"
    using validated_appName [of payload] by auto
  with a have "handleSecurityAlert P env request
      = (Inr (json_response 400 (error_body ''Unknown app'')), [])"
    by (simp add: handleSecurityAlert_def)
  with a assms show \<open>worker_fetch P env request = (json_response 400 (error_body ''Unknown app''), [])\<close>
    by (simp add: worker_post route_alert)
next
  assume c: \<open>req_pathname request = ''/csp-report''
         \<and> req_json request = Some report
         \<and> get_prop report ''csp-report'' = Inr cspData
         \<and> csp_appName P request cspData = Inr (Some app)
         \<and> no_recipient (getRecipientEmail P app env)\<close>
  then have "handleCspReport P env request = (Inr no_content, [])"
    by (simp add: handleCspReport_def)
  with c assms show "worker_fetch P env request = (no_content, [])"
    by (simp add: worker_post route_csp)
qed (simp_all add: json_response_def error_body_def no_content_def)

lemma unknown_app_answer_sample:
  \<open>worker_fetch (sample_platform Rejected) sample_env
      (post_request ''/alert'' None None (Some (sample_payload ''ghost_app'')))
     = (json_response 400 (error_body ''Unknown app''), [])
   \<and> worker_fetch (sample_platform Rejected) sample_env
      (post_request ''/csp-report'' (Some ''ghost_app'') None (Some (sample_report ''inline'')))
     = (no_content, [])\<close>
proof -
  let ?P = "sample_platform Rejected"
  let ?a = \<open>post_request ''/alert'' None None (Some (sample_payload ''ghost_app''))\<close>
  let ?c = \<open>post_request ''/csp-report'' (Some ''ghost_app'') None (Some (sample_report ''inline''))\<close>
  have none: \<open>no_recipient (getRecipientEmail ?P ''ghost_app'' sample_env)\<close>
    by (simp add: sample_registry no_recipient_def)
  have a: \<open>req_method ?a = ''POST''\<close> "\<not> too_large (req_content_length ?a)"
    \<open>req_pathname ?a \<in> {''/alert'', ''/security-alert''}\<close>
    \<open>req_json ?a = Some (sample_payload ''ghost_app'')\<close>
    \<open>validateAlertPayload (sample_payload ''ghost_app'') = Inr None\<close>
    \<open>get_prop (sample_payload ''ghost_app'') ''appName'' = Inr (Str ''ghost_app'')\<close>
    by (simp_all add: post_request_def too_large_def sample_payload_valid)
       (simp add: sample_payload_def)
  have c: \<open>req_method ?c = ''POST''\<close> "\<not> too_large (req_content_length ?c)"
    \<open>req_pathname ?c = ''/csp-report''\<close>
    \<open>req_json ?c = Some (sample_report ''inline'')\<close>
    \<open>get_prop (sample_report ''inline'') ''csp-report''
       = Inr (field_of (sample_report ''inline'') ''csp-report'')\<close>
    \<open>csp_appName ?P ?c (field_of (sample_report ''inline'') ''csp-report'') = Inr (Some ''ghost_app'')\<close>
    by (simp_all add: post_request_def too_large_def sample_report_def field_of_def csp_appName_def)
  show ?thesis
    using unknown_app_answer [OF a(1,2), where payload = \<open>sample_payload ''ghost_app''\<close>
          and name = \<open>''ghost_app''\<close> and env = sample_env and P = ?P]
      unknown_app_answer [OF c(1,2), where report = \<open>sample_report ''inline''\<close>
          and cspData = \<open>field_of (sample_report ''inline'') ''csp-report''\<close>
          and P = ?P and app = \<open>''ghost_app''\<close> and env = sample_env]
      a(3-) c(3-) none
    by blast
qed

text \<open>
  C4. Claimed: whenever the application name of a request has no entry in the registry,
  a valid alert is answered with 400 and \<^verbatim>\<open>Unknown app\<close>, a POST to \<^verbatim>\<open>/csp-report\<close>
  with 204 and no body, and \<^verbatim>\<open>sendEmail\<close> is not called. \<^verbatim>\<open>handleCspReport\<close> reads
  \<^verbatim>\<open>report['csp-report']\<close> before it looks at the name. On a POST to
  \<^verbatim>\<open>/csp-report?appName=ghost_app\<close> whose body is the JSON text \<^verbatim>\<open>null\<close> this read
  throws, and the \<^verbatim>\<open>catch\<close> of \<^verbatim>\<open>fetch\<close> answers 500 with the body
  \<^verbatim>\<open>{"success":false,"error":"Internal error"}\<close>, in every registry, also in one
  without an entry for \<^verbatim>\<open>ghost_app\<close>. (\<^verbatim>\<open>sendEmail\<close> is not called.) For an alert, and
  for a report from which the handler gets a name, the claim holds:
  \<open>unknown_app_answer\<close>.
\<close>

theorem csp_null_report_unknown_app:
  \<open>getRecipientEmail P ''ghost_app'' sample_env = None
   \<and> worker_fetch P env (post_request ''/csp-report'' (Some ''ghost_app'') None (Some Null))
       = (json_response 500 (error_body ''Internal error''), [])
   \<and> status (json_response 500 (error_body ''Internal error'')) = 500
   \<and> body (json_response 500 (error_body ''Internal error''))
       = Some ''{"success":false,"error":"Internal error"}''
   \<and> status no_content = 204\<close>
proof -
  let ?r = \<open>post_request ''/csp-report'' (Some ''ghost_app'') None (Some Null)\<close>
  have post: \<open>req_method ?r = ''POST''\<close> "\<not> too_large (req_content_length ?r)"
    \<open>req_pathname ?r = ''/csp-report''\<close> "req_json ?r = Some Null"
    by (simp_all add: post_request_def too_large_def)
  have "handleCspReport P env ?r = (Inl TypeError, [])"
    using post(4) by (simp add: handleCspReport_def get_prop_null)
  then have \<open>worker_fetch P env ?r = (json_response 500 (error_body ''Internal error''), [])\<close>
    by (simp add: worker_post [OF post(1,2)] route_csp [OF post(3)])
  then show ?thesis
    by (simp add: sample_registry json_response_def error_body_def no_content_def)
qed

theorem csp_null_report_unknown_app_witness:
  \<open>getRecipientEmail (sample_platform Rejected) ''ghost_app'' sample_env = None
   \<and> status (fst (worker_fetch (sample_platform Rejected) sample_env
         (post_request ''/csp-report'' (Some ''ghost_app'') None (Some Null)))) = 500\<close>
  using csp_null_report_unknown_app [of "sample_platform Rejected" sample_env]
  by (simp add: json_response_def)

section \<open>The outcome of the transport\<close>

lemma handleSecurityAlert_mails:
  assumes "handleSecurityAlert P env request = (out, mails)"
  shows "mails = [] \<or>
     (\<exists>mail. mails = [mail] \<and>
        out = (case sendEmail P env mail of
                 Inl e \<Rightarrow> Inl e
               | Inr sent \<Rightarrow> Inr (json_response (if sent then 200 else 500) (success_body sent))))"
  using assms
  by (auto simp: handleSecurityAlert_def then_handle_def Let_def
      split: option.splits sum.splits if_splits)

lemma handleCspReport_mails:
  assumes "handleCspReport P env request = (out, mails)"
  shows "mails = [] \<or>
     (\<exists>mail. mails = [mail] \<and>
        out = (case sendEmail P env mail of Inl e \<Rightarrow> Inl e | Inr sent \<Rightarrow> Inr no_content))"
  using assms
  by (auto simp: handleCspReport_def then_handle_def Let_def
      split: option.splits sum.splits if_splits)

lemma worker_mails_route:
  assumes "snd (worker_fetch P env request) \<noteq> []"
  shows \<open>req_method request = ''POST''\<close> "\<not> too_large (req_content_length request)"
  using assms by (auto simp: worker_fetch_def split: if_splits)

lemma csp_alert_object:
  assumes "cspData \<noteq> Null" "cspData \<noteq> Undefined"
  shows \<open>csp_alert P cspData app =
     Inr \<lparr>appName = app,
          alert_type = ''csp_violation'',
          alert_url = field_of cspData ''blocked-uri'',
          alert_hostname = extractHostname P (field_of cspData ''blocked-uri''),
          timestamp = date_now P,
          stack = Undefined,
          appVersion = Undefined,
          userAgent = Undefined,
          metadata = Obj [(''documentUri'', field_of cspData ''document-uri''),
                          (''violatedDirective'', field_of cspData ''violated-directive''),
                          (''originalPolicy'', field_of cspData ''original-policy''),
                          (''sourceFile'', field_of cspData ''source-file''),
                          (''lineNumber'', field_of cspData ''line-number'')]\<rparr>\<close>
  using assms by (simp add: csp_alert_def get_prop_field_of)

lemma csp_alert_null: "csp_alert P Null app = Inl TypeError" "csp_alert P Undefined app = Inl TypeError"
  by (simp_all add: csp_alert_def)

lemma sample_mail:
  fixes outcome
  defines "P \<equiv> sample_platform outcome"
  shows \<open>\<exists>html. formatSecurityAlertEmail P (sample_alert Undefined) = Inr html
     \<and> handleSecurityAlert P sample_env
         (post_request path None None (Some (sample_payload ''mail_box'')))
       = (let mail = \<lparr>mail_to = ''mailbox@test.com'',
                       mail_subject = ''[Security Alert] mail_box: unauthorized_fetch'',
                       mail_html = html\<rparr>
          in (case sendEmail P sample_env mail of
                Inl e \<Rightarrow> Inl e
              | Inr sent \<Rightarrow> Inr (json_response (if sent then 200 else 500) (success_body sent)),
              [mail]))\<close>
proof -
  have "typed_alert (sample_alert Undefined)"
    by (simp add: typed_alert_def sample_alert_def is_string_def optional_string_def)
  moreover have \<open>toISOString P (timestamp (sample_alert Undefined)) = Some ''2023-11-14T22:13:20.000Z''\<close>
    by (simp add: P_def sample_platform_def sample_alert_def)
  ultimately obtain html where h: "formatSecurityAlertEmail P (sample_alert Undefined) = Inr html"
    using formatSecurityAlertEmail_returns by blast
  have same: \<open>(sample_alert Undefined)\<lparr>appName := ''mail_box''\<rparr> = sample_alert Undefined\<close>
    by (simp add: sample_alert_def)
  have ty: "alert_type (sample_alert Undefined) = ''unauthorized_fetch''"
     "appName (sample_alert Undefined) = ''mail_box''"
    by (simp_all add: sample_alert_def)
  show ?thesis
    using h
    by (auto simp add: handleSecurityAlert_def post_request_def sample_payload_valid
        sample_payload_alert same sample_registry no_recipient_def ty Let_def
        split: sum.splits)
qed


lemma sample_csp_mail:
  fixes outcome
  defines "P \<equiv> sample_platform outcome"
  shows \<open>\<exists>html.
       handleCspReport P sample_env
         (post_request ''/csp-report'' None None (Some (sample_report ''inline'')))
       = (let mail = \<lparr>mail_to = ''mailbox@test.com'',
                       mail_subject = ''[CSP Violation] mail_box: img-src'',
                       mail_html = html\<rparr>
          in (case sendEmail P sample_env mail of
                Inl e \<Rightarrow> Inl e
              | Inr sent \<Rightarrow> Inr no_content,
              [mail]))\<close>
proof -
  define cspData where \<open>cspData = field_of (sample_report ''inline'') ''csp-report''\<close>
  have data: \<open>cspData = Obj [(''document-uri'', Str ''https://app.signic.email/inbox''),
                (''violated-directive'', Str ''img-src''),
                (''blocked-uri'', Str ''inline'')]\<close>
    by (simp add: cspData_def sample_report_def field_of_def)
  have rep: \<open>get_prop (sample_report ''inline'') ''csp-report'' = Inr cspData\<close>
    by (simp add: cspData_def sample_report_def field_of_def)
  have name: \<open>csp_appName P (post_request ''/csp-report'' None None (Some (sample_report ''inline''))) cspData
      = Inr (Some ''mail_box'')\<close>
    by (simp add: csp_appName_def post_request_def data inferAppName_def P_def
        sample_platform_def sample_URL_def)
  obtain alert where alert: \<open>csp_alert P cspData ''mail_box'' = Inr alert\<close>
    and fields: \<open>alert_url alert = Str ''inline''\<close> \<open>alert_hostname alert = Str ''inline''\<close>
      "timestamp alert = date_now P" "stack alert = Undefined" "appVersion alert = Undefined"
      "userAgent alert = Undefined"
    by (simp add: csp_alert_object data field_of_def extractHostname_def P_def
        sample_platform_def sample_URL_def)
  have "typed_alert alert"
    by (simp add: typed_alert_def fields is_string_def optional_string_def)
  moreover have \<open>toISOString P (timestamp alert) = Some ''2023-11-14T22:13:20.000Z''\<close>
    by (simp add: fields P_def sample_platform_def)
  ultimately obtain html where h: "formatSecurityAlertEmail P alert = Inr html"
    using formatSecurityAlertEmail_returns by blast
  have subject: \<open>csp_subject P cspData ''mail_box'' = Inr ''[CSP Violation] mail_box: img-src''\<close>
    by (simp add: csp_subject_def data P_def sample_platform_def)
  show ?thesis
    using h rep name alert subject
    by (auto simp add: handleCspReport_def post_request_def sample_registry no_recipient_def Let_def
        split: sum.splits)
qed

text \<open>
  Whenever the worker has called \<^verbatim>\<open>sendEmail\<close> for a request (so the request has
  passed the validation and the registry) and \<^verbatim>\<open>sendEmail\<close> has reported its outcome
  as a boolean: on the alert paths the response is 500 with the body
  \<^verbatim>\<open>{"success":false}\<close> when the outcome is a failure, and 200 with
  \<^verbatim>\<open>{"success":true}\<close> when it is a success; on \<^verbatim>\<open>/csp-report\<close> the response is 204
  whatever the boolean.
\<close>

lemma transport_outcome_reported:
  assumes "snd (worker_fetch P env request) = [mail]" and "sendEmail P env mail = Inr sent"
  shows
    \<open>(req_pathname request \<in> {''/alert'', ''/security-alert''} \<longrightarrow>
        fst (worker_fetch P env request)
          = json_response (if sent then 200 else 500)
              (if sent then ''{"success":true}'' else ''{"success":false}''))
     \<and> (req_pathname request = ''/csp-report'' \<longrightarrow>
          fst (worker_fetch P env request) = no_content)
     \<and> status no_content = 204\<close>
proof -
  from assms(1) have post: \<open>req_method request = ''POST''\<close> "\<not> too_large (req_content_length request)"
    using worker_mails_route [of P env request] by simp_all
  obtain out mails where r: "route P env request = (out, mails)"
    by (cases "route P env request")
  with assms(1) post have mails: "mails = [mail]"
    by (simp add: worker_post split: sum.splits)
  have alert: \<open>fst (worker_fetch P env request)
          = json_response (if sent then 200 else 500)
              (if sent then ''{"success":true}'' else ''{"success":false}'')\<close>
    if \<open>req_pathname request \<in> {''/alert'', ''/security-alert''}\<close>
  proof -
    from that r have "handleSecurityAlert P env request = (out, [mail])"
      using mails by (simp add: route_alert)
    from handleSecurityAlert_mails [OF this] assms(2)
    have "out = Inr (json_response (if sent then 200 else 500) (success_body sent))"
      by simp
    with r post show ?thesis
      by (simp add: worker_post success_body_def)
  qed
  have csp: "fst (worker_fetch P env request) = no_content"
    if \<open>req_pathname request = ''/csp-report''\<close>
  proof -
    from that r have "handleCspReport P env request = (out, [mail])"
      using mails by (simp add: route_csp)
    from handleCspReport_mails [OF this] assms(2)
    have "out = Inr no_content" by simp
    with r post show ?thesis by (simp add: worker_post)
  qed
  show ?thesis using alert csp by (simp add: no_content_def)
qed

lemma transport_outcome_reported_sample:
  \<open>fst (worker_fetch (sample_platform (Responded 500 (Some ''SendGrid error''))) sample_env
          (post_request ''/alert'' None None (Some (sample_payload ''mail_box''))))
     = json_response 500 ''{"success":false}''
   \<and> fst (worker_fetch (sample_platform (Responded 202 (Some []))) sample_env
          (post_request ''/alert'' None None (Some (sample_payload ''mail_box''))))
     = json_response 200 ''{"success":true}''
   \<and> fst (worker_fetch (sample_platform (Responded 500 (Some ''SendGrid error''))) sample_env
          (post_request ''/csp-report'' None None (Some (sample_report ''inline''))))
     = no_content\<close>
proof -
  let ?bad = \<open>sample_platform (Responded 500 (Some ''SendGrid error''))\<close>
  let ?good = \<open>sample_platform (Responded 202 (Some []))\<close>
  let ?alert = \<open>post_request ''/alert'' None None (Some (sample_payload ''mail_box''))\<close>
  let ?csp = \<open>post_request ''/csp-report'' None None (Some (sample_report ''inline''))\<close>
  have send: "sendEmail ?bad sample_env mail = Inr False" "sendEmail ?good sample_env mail = Inr True"
    for mail
    by (simp_all add: sendEmail_def sample_env_def sample_platform_def response_ok_def)
  have post: \<open>req_method ?alert = ''POST''\<close> "\<not> too_large (req_content_length ?alert)"
    \<open>req_pathname ?alert \<in> {''/alert'', ''/security-alert''}\<close>
    \<open>req_method ?csp = ''POST''\<close> "\<not> too_large (req_content_length ?csp)"
    \<open>req_pathname ?csp = ''/csp-report''\<close>
    by (simp_all add: post_request_def too_large_def)
  have path: \<open>req_pathname ?alert = ''/alert''\<close>
    by (simp add: post_request_def)
  from sample_mail [of \<open>Responded 500 (Some ''SendGrid error'')\<close> \<open>''/alert''\<close>]
  obtain m1 where "snd (worker_fetch ?bad sample_env ?alert) = [m1]"
    by (auto simp: worker_post [OF post(1,2)] route_alert [OF post(3)] send Let_def)
  from transport_outcome_reported [OF this send(1)] path
  have 1: \<open>fst (worker_fetch ?bad sample_env ?alert) = json_response 500 ''{"success":false}''\<close>
    by simp
  from sample_mail [of \<open>Responded 202 (Some [])\<close> \<open>''/alert''\<close>]
  obtain m2 where "snd (worker_fetch ?good sample_env ?alert) = [m2]"
    by (auto simp: worker_post [OF post(1,2)] route_alert [OF post(3)] send Let_def)
  from transport_outcome_reported [OF this send(2)] path
  have 2: \<open>fst (worker_fetch ?good sample_env ?alert) = json_response 200 ''{"success":true}''\<close>
    by simp
  from sample_csp_mail [of \<open>Responded 500 (Some ''SendGrid error'')\<close>]
  obtain m3 where "snd (worker_fetch ?bad sample_env ?csp) = [m3]"
    by (auto simp: worker_post [OF post(4,5)] route_csp [OF post(6)] send Let_def)
  from transport_outcome_reported [OF this send(1)] post(6)
  have 3: "fst (worker_fetch ?bad sample_env ?csp) = no_content"
    by simp
  show ?thesis using 1 2 3 by simp
qed

lemma transport_exception_answer:
  assumes "snd (worker_fetch P env request) = [mail]" and "sendEmail P env mail = Inl e"
  shows \<open>fst (worker_fetch P env request) = json_response 500 (error_body ''Internal error'')\<close>
proof -
  from assms(1) have post: \<open>req_method request = ''POST''\<close> "\<not> too_large (req_content_length request)"
    using worker_mails_route [of P env request] by simp_all
  obtain out mails where r: "route P env request = (out, mails)"
    by (cases "route P env request")
  with assms(1) post have mails: "mails = [mail]"
    by (simp add: worker_post split: sum.splits)
  have "out = Inl e"
  proof -
    consider \<open>req_pathname request \<in> {''/alert'', ''/security-alert''}\<close>
      | \<open>req_pathname request = ''/csp-report''\<close>
      | \<open>req_pathname request \<notin> {''/alert'', ''/security-alert'', ''/csp-report''}\<close>
      by blast
    then show ?thesis
    proof cases
      case 1
      with r mails have "handleSecurityAlert P env request = (out, [mail])"
        by (simp add: route_alert)
      from handleSecurityAlert_mails [OF this] assms(2) show ?thesis by simp
    next
      case 2
      with r mails have "handleCspReport P env request = (out, [mail])"
        by (simp add: route_csp)
      from handleCspReport_mails [OF this] assms(2) show ?thesis by simp
    next
      case 3
      with r mails show ?thesis by (simp add: route_def)
    qed
  qed
  with r post show ?thesis by (simp add: worker_post)
qed

text \<open>
  C6. Claimed: when the transport fails for a request that has passed the validation and
  the registry, an alert is answered with 500 and a body whose \<^verbatim>\<open>success\<close> is false
  (200 and true on success), and a CSP report with 204 whatever the outcome of the
  transport. When \<^verbatim>\<open>sendEmail\<close> returns a boolean that is so:
  \<open>transport_outcome_reported\<close>. When the outbound \<^verbatim>\<open>fetch\<close> rejects, or answers with a
  failure status and a body that cannot be read, \<^verbatim>\<open>sendEmail\<close> ends with an
  exception: \<^verbatim>\<open>handleCspReport\<close> has awaited it without a \<^verbatim>\<open>try\<close>, and the \<^verbatim>\<open>catch\<close>
  of \<^verbatim>\<open>fetch\<close> answers the CSP report with 500 and the body
  \<^verbatim>\<open>{"success":false,"error":"Internal error"}\<close>. (An alert is then answered with the
  same 500, which is what the claim says of an alert: \<open>transport_exception_answer\<close>.)
\<close>

theorem csp_report_transport_exception:
  \<open>(\<exists>mail. worker_fetch (sample_platform Rejected) sample_env
            (post_request ''/csp-report'' None None (Some (sample_report ''inline'')))
          = (json_response 500 (error_body ''Internal error''), [mail])
        \<and> sendEmail (sample_platform Rejected) sample_env mail = Inl NetworkError)
   \<and> (\<exists>mail. worker_fetch (sample_platform (Responded 503 None)) sample_env
            (post_request ''/csp-report'' None None (Some (sample_report ''inline'')))
          = (json_response 500 (error_body ''Internal error''), [mail])
        \<and> sendEmail (sample_platform (Responded 503 None)) sample_env mail = Inl NetworkError)
   \<and> (\<exists>mail. worker_fetch (sample_platform Rejected) sample_env
            (post_request ''/alert'' None None (Some (sample_payload ''mail_box'')))
          = (json_response 500 (error_body ''Internal error''), [mail]))
   \<and> status (json_response 500 (error_body ''Internal error'')) = 500
   \<and> body (json_response 500 (error_body ''Internal error''))
       = Some ''{"success":false,"error":"Internal error"}''
   \<and> status no_content = 204\<close>
proof -
  let ?csp = \<open>post_request ''/csp-report'' None None (Some (sample_report ''inline''))\<close>
  let ?alert = \<open>post_request ''/alert'' None None (Some (sample_payload ''mail_box''))\<close>
  have send: "sendEmail (sample_platform Rejected) sample_env m = Inl NetworkError"
    "sendEmail (sample_platform (Responded 503 None)) sample_env m = Inl NetworkError" for m
    by (simp_all add: sendEmail_def sample_env_def sample_platform_def response_ok_def)
  have post: \<open>req_method ?csp = ''POST''\<close> "\<not> too_large (req_content_length ?csp)"
    \<open>req_pathname ?csp = ''/csp-report''\<close>
    \<open>req_method ?alert = ''POST''\<close> "\<not> too_large (req_content_length ?alert)"
    \<open>req_pathname ?alert \<in> {''/alert'', ''/security-alert''}\<close>
    by (simp_all add: post_request_def too_large_def)
  from sample_csp_mail [of Rejected]
  have 1: \<open>\<exists>mail. worker_fetch (sample_platform Rejected) sample_env ?csp
          = (json_response 500 (error_body ''Internal error''), [mail])
        \<and> sendEmail (sample_platform Rejected) sample_env mail = Inl NetworkError\<close>
    by (auto simp: worker_post [OF post(1,2)] route_csp [OF post(3)] send Let_def)
  from sample_csp_mail [of \<open>Responded 503 None\<close>]
  have 2: \<open>\<exists>mail. worker_fetch (sample_platform (Responded 503 None)) sample_env ?csp
          = (json_response 500 (error_body ''Internal error''), [mail])
        \<and> sendEmail (sample_platform (Responded 503 None)) sample_env mail = Inl NetworkError\<close>
    by (auto simp: worker_post [OF post(1,2)] route_csp [OF post(3)] send Let_def)
  from sample_mail [of Rejected \<open>''/alert''\<close>]
  have 3: \<open>\<exists>mail. worker_fetch (sample_platform Rejected) sample_env ?alert
          = (json_response 500 (error_body ''Internal error''), [mail])\<close>
    by (auto simp: worker_post [OF post(4,5)] route_alert [OF post(6)] send Let_def)
  show ?thesis
    using 1 2 3 by (simp add: json_response_def error_body_def no_content_def)
qed

theorem csp_report_transport_exception_witness:
  \<open>status (fst (worker_fetch (sample_platform Rejected) sample_env
       (post_request ''/csp-report'' None None (Some (sample_report ''inline''))))) = 500
   \<and> status (fst (worker_fetch (sample_platform (Responded 503 None)) sample_env
       (post_request ''/csp-report'' None None (Some (sample_report ''inline''))))) = 500
   \<and> length (snd (worker_fetch (sample_platform Rejected) sample_env
       (post_request ''/csp-report'' None None (Some (sample_report ''inline''))))) = 1\<close>
  using csp_report_transport_exception
  by (auto simp: json_response_def)

lemma sendEmail_no_key:
  \<open>env ''SENDGRID_API_KEY'' = None \<or> env ''SENDGRID_API_KEY'' = Some [] \<Longrightarrow>
   sendEmail P env mail = Inr False\<close>
  by (auto simp: sendEmail_def)

lemma sendEmail_responded:
  assumes \<open>env ''SENDGRID_API_KEY'' = Some key\<close> "key \<noteq> []"
    and "outbound_fetch P (sendgrid_request env key mail) = Responded st (Some text)"
  shows "sendEmail P env mail = Inr (response_ok st)"
  using assms by (simp add: sendEmail_def)

lemma sendEmail_true:
  \<open>sendEmail P env mail = Inr True \<longleftrightarrow>
     (\<exists>key st text. env ''SENDGRID_API_KEY'' = Some key \<and> key \<noteq> []
        \<and> outbound_fetch P (sendgrid_request env key mail) = Responded st text
        \<and> response_ok st)\<close>
  by (auto simp: sendEmail_def split: option.splits fetch_result.splits)

lemma sendEmail_false:
  \<open>sendEmail P env mail = Inr False \<longleftrightarrow>
     (env ''SENDGRID_API_KEY'' = None \<or> env ''SENDGRID_API_KEY'' = Some []
      \<or> (\<exists>key st text. env ''SENDGRID_API_KEY'' = Some key \<and> key \<noteq> []
            \<and> outbound_fetch P (sendgrid_request env key mail) = Responded st (Some text)
            \<and> \<not> response_ok st))\<close>
  by (auto simp: sendEmail_def split: option.splits fetch_result.splits)

lemma sendEmail_rejected:
  assumes \<open>env ''SENDGRID_API_KEY'' = Some key\<close> "key \<noteq> []"
    and "outbound_fetch P (sendgrid_request env key mail) = Rejected"
  shows "sendEmail P env mail = Inl NetworkError"
  using assms by (simp add: sendEmail_def)

text \<open>
  C7. Claimed: \<^verbatim>\<open>sendEmail\<close> returns \<^verbatim>\<open>false\<close>, without an exception, in every failure
  case, a failing network call included. With the credential set and a \<^verbatim>\<open>fetch\<close> that
  rejects, \<^verbatim>\<open>sendEmail\<close> ends with the exception of \<^verbatim>\<open>fetch\<close>: there is no \<^verbatim>\<open>try\<close>
  around the call. The exception reaches the \<^verbatim>\<open>catch\<close> of the worker, so that a CSP
  report is then answered with 500. The other cases are as claimed:
  \<open>sendEmail_no_key\<close>, \<open>sendEmail_responded\<close>, \<open>sendEmail_true\<close>.
\<close>

theorem sendEmail_network_failure:
  \<open>sendEmail (sample_platform Rejected) sample_env mail = Inl NetworkError
   \<and> fst (worker_fetch (sample_platform Rejected) sample_env
          (post_request ''/csp-report'' None None (Some (sample_report ''inline''))))
     = json_response 500 (error_body ''Internal error'')\<close>
proof -
  let ?P = "sample_platform Rejected"
  let ?csp = \<open>post_request ''/csp-report'' None None (Some (sample_report ''inline''))\<close>
  have send: "sendEmail ?P sample_env m = Inl NetworkError" for m
    by (simp add: sendEmail_def sample_env_def sample_platform_def)
  have post: \<open>req_method ?csp = ''POST''\<close> "\<not> too_large (req_content_length ?csp)"
    \<open>req_pathname ?csp = ''/csp-report''\<close>
    by (simp_all add: post_request_def too_large_def)
  from sample_csp_mail [of Rejected]
  have "fst (worker_fetch ?P sample_env ?csp) = json_response 500 (error_body ''Internal error'')"
    by (auto simp: worker_post [OF post(1,2)] route_csp [OF post(3)] send Let_def)
  with send show ?thesis by simp
qed

theorem sendEmail_network_failure_witness:
  \<open>sendEmail (sample_platform Rejected) sample_env
      \<lparr>mail_to = ''mailbox@test.com'', mail_subject = ''subject'', mail_html = ''text''\<rparr>
     = Inl NetworkError
   \<and> status (fst (worker_fetch (sample_platform Rejected) sample_env
          (post_request ''/csp-report'' None None (Some (sample_report ''inline''))))) = 500\<close>
  using sendEmail_network_failure
    [of \<open>\<lparr>mail_to = ''mailbox@test.com'', mail_subject = ''subject'', mail_html = ''text''\<rparr>\<close>]
  by (simp add: json_response_def)

section \<open>The size guard\<close>

lemma trimStart_Nil: "trimStart [] = []"
  by (simp add: trimStart_def skip.simps [of _ "[]"] space_at_def white_space_def)

lemma parseInt_Nil: "parseInt [] = None"
  by (simp add: parseInt_def trimStart_Nil)

lemma handleSecurityAlert_status:
  "handleSecurityAlert P env request = (Inr response, mails) \<Longrightarrow> status response \<in> {200, 400, 500}"
  by (auto simp: handleSecurityAlert_def then_handle_def Let_def json_response_def
      split: option.splits sum.splits if_splits)

lemma handleCspReport_status:
  "handleCspReport P env request = (Inr response, mails) \<Longrightarrow> status response = 204"
  by (auto simp: handleCspReport_def then_handle_def Let_def no_content_def
      split: option.splits sum.splits if_splits)

lemma route_status:
  "route P env request = (Inr response, mails) \<Longrightarrow> status response \<in> {200, 204, 400, 404, 500}"
  using handleSecurityAlert_status [of P env request response mails]
    handleCspReport_status [of P env request response mails]
  by (auto simp: route_def Let_def split: if_splits)

text \<open>
  C9. The size guard looks at the \<^verbatim>\<open>Content-Length\<close> header only. Every POST whose
  header parses (\<open>parseInt\<close>: after any white space, the no-break space included, a
  sign and decimal digits) to an integer above 102400 is answered with 413 and the body
  \<^verbatim>\<open>{"success":false,"error":"Payload too large"}\<close>, whatever its path and body, and
  no handler runs (no call of \<^verbatim>\<open>sendEmail\<close>). A POST without the header is never
  answered with 413. Altogether a POST is answered with 413 exactly when the guard on
  the header holds.
\<close>

theorem size_guard_spec:
  \<open>(req_method request = ''POST'' \<and> req_content_length request = Some cl
      \<and> parseInt cl = Some n \<and> n > 102400
     \<longrightarrow> worker_fetch P env request = (json_response 413 (error_body ''Payload too large''), [])
       \<and> status (json_response 413 (error_body ''Payload too large'')) = 413
       \<and> body (json_response 413 (error_body ''Payload too large''))
           = Some ''{"success":false,"error":"Payload too large"}'')
   \<and> (req_method request = ''POST'' \<and> req_content_length request = None
       \<longrightarrow> status (fst (worker_fetch P env request)) \<noteq> 413)
   \<and> (req_method request = ''POST''
       \<longrightarrow> (status (fst (worker_fetch P env request)) = 413
            \<longleftrightarrow> too_large (req_content_length request)))\<close>
proof (intro conjI impI)
  assume a: \<open>req_method request = ''POST'' \<and> req_content_length request = Some cl
      \<and> parseInt cl = Some n \<and> n > 102400\<close>
  then have "cl \<noteq> []" using parseInt_Nil by auto
  with a have "too_large (req_content_length request)"
    by (simp add: too_large_def MAX_REQUEST_BODY_SIZE_def)
  with a show \<open>worker_fetch P env request = (json_response 413 (error_body ''Payload too large''), [])\<close>
    by (simp add: worker_fetch_def)
next
  assume b: \<open>req_method request = ''POST'' \<and> req_content_length request = None\<close>
  then have w: "worker_fetch P env request =
    (case route P env request of
       (Inl error, mails) \<Rightarrow> (json_response 500 (error_body ''Internal error''), mails)
     | (Inr response, mails) \<Rightarrow> (response, mails))"
    by (simp add: worker_post too_large_def)
  obtain out mails where r: "route P env request = (out, mails)"
    by (cases "route P env request")
  show "status (fst (worker_fetch P env request)) \<noteq> 413"
  proof (cases out)
    case (Inl e)
    with r w show ?thesis by (simp add: json_response_def)
  next
    case (Inr response)
    with r have "status response \<in> {200, 204, 400, 404, 500}"
      using route_status by blast
    with r w Inr show ?thesis by auto
  qed
next
  assume post: \<open>req_method request = ''POST''\<close>
  show "status (fst (worker_fetch P env request)) = 413
          \<longleftrightarrow> too_large (req_content_length request)"
  proof (cases "too_large (req_content_length request)")
    case True
    with post show ?thesis by (simp add: worker_fetch_def json_response_def)
  next
    case False
    obtain out mails where r: "route P env request = (out, mails)"
      by (cases "route P env request")
    have "status (fst (worker_fetch P env request)) \<noteq> 413"
    proof (cases out)
      case (Inl e)
      with r post False show ?thesis by (simp add: worker_post json_response_def)
    next
      case (Inr response)
      with r have "status response \<in> {200, 204, 400, 404, 500}"
        using route_status by blast
      with r post False Inr show ?thesis by (auto simp: worker_post)
    qed
    with False show ?thesis by simp
  qed
qed (simp_all add: json_response_def error_body_def)

theorem size_guard_spec_witness:
  \<open>parseInt ''102401'' = Some 102401
   \<and> worker_fetch (sample_platform Rejected) sample_env
        (post_request ''/alert'' None (Some ''102401'') (Some (sample_payload ''mail_box'')))
       = (json_response 413 (error_body ''Payload too large''), [])
   \<and> status (fst (worker_fetch (sample_platform Rejected) sample_env
        (post_request ''/alert'' None None (Some (sample_payload ''ghost_app''))))) \<noteq> 413
   \<and> parseInt ([CHR 0xC2, CHR 0xA0] @ ''102401'') = Some 102401
   \<and> worker_fetch (sample_platform Rejected) sample_env
        (post_request ''/alert'' None (Some ([CHR 0xC2, CHR 0xA0] @ ''102401''))
           (Some (sample_payload ''mail_box'')))
       = (json_response 413 (error_body ''Payload too large''), [])\<close>
proof -
  let ?P = "sample_platform Rejected"
  let ?big = \<open>post_request ''/alert'' None (Some ''102401'') (Some (sample_payload ''mail_box''))\<close>
  let ?nbsp = \<open>post_request ''/alert'' None (Some ([CHR 0xC2, CHR 0xA0] @ ''102401''))
           (Some (sample_payload ''mail_box''))\<close>
  let ?bare = \<open>post_request ''/alert'' None None (Some (sample_payload ''ghost_app''))\<close>
  have p: \<open>parseInt ''102401'' = Some 102401\<close>
    \<open>parseInt ([CHR 0xC2, CHR 0xA0] @ ''102401'') = Some 102401\<close>
    by (simp_all add: parseInt_def trimStart_def skip.simps [of _ \<open>c # s\<close> for c s] space_at_def
        white_space_def is_digit_def digits_value_def Let_def)
  have big: \<open>req_method ?big = ''POST''\<close> \<open>req_content_length ?big = Some ''102401''\<close>
    \<open>req_method ?nbsp = ''POST''\<close>
    \<open>req_content_length ?nbsp = Some ([CHR 0xC2, CHR 0xA0] @ ''102401'')\<close>
    by (simp_all add: post_request_def)
  have bare: \<open>req_method ?bare = ''POST''\<close> \<open>req_content_length ?bare = None\<close>
    by (simp_all add: post_request_def)
  have \<open>worker_fetch ?P sample_env ?big = (json_response 413 (error_body ''Payload too large''), [])\<close>
    using size_guard_spec [where request = ?big and cl = \<open>''102401''\<close> and n = 102401
        and P = ?P and env = sample_env] p(1) big(1,2)
    by simp
  moreover have \<open>worker_fetch ?P sample_env ?nbsp = (json_response 413 (error_body ''Payload too large''), [])\<close>
    using size_guard_spec [where request = ?nbsp and cl = \<open>[CHR 0xC2, CHR 0xA0] @ ''102401''\<close>
        and n = 102401 and P = ?P and env = sample_env] p(2) big(3,4)
    by simp
  moreover have "status (fst (worker_fetch ?P sample_env ?bare)) \<noteq> 413"
    using size_guard_spec [where request = ?bare and P = ?P and env = sample_env] bare
    by blast
  ultimately show ?thesis using p by blast
qed

section \<open>The host name of a CSP alert\<close>

text \<open>
  C10. When the handler of CSP reports builds the alert, the host name of the alert is
  the host name of \<^verbatim>\<open>blocked-uri\<close> when that string parses as a URL, and the string
  itself when it does not; building the alert does not fail on a string that does not
  parse.
\<close>

theorem csp_hostname_spec:
  \<open>(get_prop cspData ''blocked-uri'' = Inr (Str b) \<longrightarrow>
      (\<exists>alert. csp_alert P cspData app = Inr alert
         \<and> alert_url alert = Str b
         \<and> alert_hostname alert
             = (case new_URL P (Str b) of None \<Rightarrow> Str b | Some u \<Rightarrow> Str (url_hostname u))))
   \<and> (\<forall>alert. csp_alert P cspData app = Inr alert \<longrightarrow>
         alert_hostname alert = extractHostname P (alert_url alert))
   \<and> (new_URL P v = None \<longrightarrow> extractHostname P v = v)
   \<and> (\<forall>u. new_URL P v = Some u \<longrightarrow> extractHostname P v = Str (url_hostname u))\<close>
proof (intro conjI impI allI)
  assume g: \<open>get_prop cspData ''blocked-uri'' = Inr (Str b)\<close>
  then have nn: "cspData \<noteq> Null" "cspData \<noteq> Undefined" by auto
  with g have \<open>field_of cspData ''blocked-uri'' = Str b\<close>
    by (simp add: field_of_def)
  then show \<open>\<exists>alert. csp_alert P cspData app = Inr alert
         \<and> alert_url alert = Str b
         \<and> alert_hostname alert
             = (case new_URL P (Str b) of None \<Rightarrow> Str b | Some u \<Rightarrow> Str (url_hostname u))\<close>
    by (simp add: csp_alert_object [OF nn] extractHostname_def)
next
  fix alert
  assume c: "csp_alert P cspData app = Inr alert"
  then have "cspData \<noteq> Null" "cspData \<noteq> Undefined"
    using csp_alert_null by auto
  from c show "alert_hostname alert = extractHostname P (alert_url alert)"
    unfolding csp_alert_object [OF \<open>cspData \<noteq> Null\<close> \<open>cspData \<noteq> Undefined\<close>] by auto
qed (simp_all add: extractHostname_def)

theorem csp_hostname_spec_witness:
  \<open>(\<exists>alert. csp_alert (sample_platform Rejected)
               (field_of (sample_report ''https://tracker.com/pixel.gif'') ''csp-report'') ''mail_box''
             = Inr alert
        \<and> alert_hostname alert = Str ''tracker.com'')
   \<and> (\<exists>alert. csp_alert (sample_platform Rejected)
               (field_of (sample_report ''inline'') ''csp-report'') ''mail_box''
             = Inr alert
        \<and> alert_hostname alert = Str ''inline'')\<close>
proof -
  let ?P = "sample_platform Rejected"
  have g: \<open>get_prop (field_of (sample_report b) ''csp-report'') ''blocked-uri'' = Inr (Str b)\<close> for b
    by (simp add: sample_report_def field_of_def)
  have u: \<open>new_URL ?P (Str ''https://tracker.com/pixel.gif'')
       = Some \<lparr>url_hostname = ''tracker.com'', url_protocol = ''https:''\<rparr>\<close>
    \<open>new_URL ?P (Str ''inline'') = None\<close>
    by (simp_all add: sample_platform_def sample_URL_def)
  note parsed = csp_hostname_spec [where cspData = \<open>field_of (sample_report ''https://tracker.com/pixel.gif'') ''csp-report''\<close>
      and b = \<open>''https://tracker.com/pixel.gif''\<close> and P = ?P and app = \<open>''mail_box''\<close> and v = Undefined]
  note unparsed = csp_hostname_spec [where cspData = \<open>field_of (sample_report ''inline'') ''csp-report''\<close>
      and b = \<open>''inline''\<close> and P = ?P and app = \<open>''mail_box''\<close> and v = Undefined]
  from parsed g [of \<open>''https://tracker.com/pixel.gif''\<close>]
  obtain a1 where a1: \<open>csp_alert ?P (field_of (sample_report ''https://tracker.com/pixel.gif'') ''csp-report'') ''mail_box'' = Inr a1\<close>
    \<open>alert_hostname a1 = (case new_URL ?P (Str ''https://tracker.com/pixel.gif'') of None \<Rightarrow> Str ''https://tracker.com/pixel.gif'' | Some u \<Rightarrow> Str (url_hostname u))\<close>
    by blast
  from unparsed g [of \<open>''inline''\<close>]
  obtain a2 where a2: \<open>csp_alert ?P (field_of (sample_report ''inline'') ''csp-report'') ''mail_box'' = Inr a2\<close>
    \<open>alert_hostname a2 = (case new_URL ?P (Str ''inline'') of None \<Rightarrow> Str ''inline'' | Some u \<Rightarrow> Str (url_hostname u))\<close>
    by blast
  have \<open>alert_hostname a1 = Str ''tracker.com''\<close>
    unfolding a1(2) u(1) by simp
  moreover have \<open>alert_hostname a2 = Str ''inline''\<close>
    unfolding a2(2) u(2) by simp
  ultimately show ?thesis using a1(1) a2(1) by blast
qed

end
